theory Spec2Isabelle
  imports Complex_Main
begin

section \<open>Strings of the host language\<close>

text \<open>
  A string is a list of characters; a character stands for one code unit in the range
  U+0000 .. U+00FF. The operations below are the \<open>String.prototype\<close> methods the
  sources call, restricted to that range. \<open>toUpperCase\<close> leaves alone the three letters of
  the range whose upper case lies outside it (U+00B5, U+00DF, U+00FF).
\<close>

definition startsWith :: "string \<Rightarrow> string \<Rightarrow> bool" where
  "startsWith s p = (take (length p) s = p)"

definition endsWith :: "string \<Rightarrow> string \<Rightarrow> bool" where
  "endsWith s p = startsWith (rev s) (rev p)"

text \<open>\<open>s.includes(sub)\<close> (the name \<open>includes\<close> is reserved).\<close>

fun includes_str :: "string \<Rightarrow> string \<Rightarrow> bool" where
  "includes_str [] sub = (sub = [])"
| "includes_str (c # cs) sub = (startsWith (c # cs) sub \<or> includes_str cs sub)"

definition toLowerChar :: "char \<Rightarrow> char" where
  "toLowerChar c =
     (let n = (of_char c :: nat) in
      if (65 \<le> n \<and> n \<le> 90) \<or> (192 \<le> n \<and> n \<le> 222 \<and> n \<noteq> 215)
      then char_of (n + 32) else c)"

definition toUpperChar :: "char \<Rightarrow> char" where
  "toUpperChar c =
     (let n = (of_char c :: nat) in
      if (97 \<le> n \<and> n \<le> 122) \<or> (224 \<le> n \<and> n \<le> 254 \<and> n \<noteq> 247)
      then char_of (n - 32) else c)"

definition toLowerCase :: "string \<Rightarrow> string" where
  "toLowerCase s = map toLowerChar s"

definition toUpperCase :: "string \<Rightarrow> string" where
  "toUpperCase s = map toUpperChar s"

text \<open>White space and line terminators removed by \<open>trim\<close>: TAB, LF, VT, FF, CR, SP, NBSP.\<close>

definition isWhiteSpace :: "char \<Rightarrow> bool" where
  "isWhiteSpace c = ((of_char c :: nat) \<in> {9, 10, 11, 12, 13, 32, 160})"

definition trim :: "string \<Rightarrow> string" where
  "trim s = rev (dropWhile isWhiteSpace (rev (dropWhile isWhiteSpace s)))"

section \<open>Configuration service (src/core/config/config.service.ts)\<close>

text \<open>
  An optional key of an options object is absent, present with the value \<open>undefined\<close>,
  or present with a value; the object spread of \<open>mergeWithDefaults\<close> tells the first
  two apart.
\<close>

datatype 'a field = Absent | Undefined | Present 'a

record ServerConfig =
  url :: string
  serverDescription :: "string option"

record ThemeConfig =
  primaryColor :: "string option"
  darkMode :: "bool option"
  logo :: "string option"

record SecuritySchemeConfig =
  schemeType :: string
  schemeDescription :: "string option"
  schemeName :: "string option"
  schemeIn :: "string option"
  scheme :: "string option"
  bearerFormat :: "string option"

record VersioningConfig =
  enabled :: bool
  strategy :: "string option"
  prefix :: "string option"
  fallback :: "string option"

text \<open>
  \<open>title\<close> and \<open>version\<close> are declared as plain strings; \<open>None\<close> is the key missing at
  run time (or \<open>undefined\<close>), which \<open>validateRequiredFields\<close> tests for.
\<close>

record AutoDocsOptions =
  title :: "string option"
  version :: "string option"
  description :: "string field"
  sourcePath :: "string field"
  globalPrefix :: "string field"
  docsPath :: "string field"
  specPath :: "string field"
  servers :: "ServerConfig list field"
  theme :: "ThemeConfig field"
  categoryMapping :: "(string \<times> string) list field"
  scanOnStart :: "bool field"
  watchMode :: "bool field"
  exclude :: "string list field"
  includeSecurity :: "bool field"
  securityScheme :: "SecuritySchemeConfig field"
  versioning :: "VersioningConfig field"

text \<open>The merged configuration: every key holds a value or \<open>undefined\<close> (\<open>None\<close>).\<close>

record Config =
  cfgTitle :: "string option"
  cfgVersion :: "string option"
  cfgDescription :: "string option"
  cfgSourcePath :: "string option"
  cfgGlobalPrefix :: "string option"
  cfgDocsPath :: "string option"
  cfgSpecPath :: "string option"
  cfgServers :: "ServerConfig list option"
  cfgTheme :: "ThemeConfig option"
  cfgCategoryMapping :: "(string \<times> string) list option"
  cfgScanOnStart :: "bool option"
  cfgWatchMode :: "bool option"
  cfgExclude :: "string list option"
  cfgIncludeSecurity :: "bool option"
  cfgSecurityScheme :: "SecuritySchemeConfig option"
  cfgVersioning :: "VersioningConfig option"

text \<open>\<open>!s || s.trim() === ''\<close> for a possibly missing string.\<close>

definition missingOrBlank :: "string option \<Rightarrow> bool" where
  "missingOrBlank t = (case t of None \<Rightarrow> True | Some s \<Rightarrow> s = [] \<or> trim s = [])"

definition validateRequiredFields :: "AutoDocsOptions \<Rightarrow> string + unit" where
  "validateRequiredFields options =
     (if missingOrBlank (title options)
      then Inl ''AutoDocs configuration error: \"title\" is required and cannot be empty''
      else if missingOrBlank (version options)
      then Inl ''AutoDocs configuration error: \"version\" is required and cannot be empty''
      else Inr ())"

text \<open>\<open>x || d\<close> on an optional string, \<open>x ?? d\<close> on an optional boolean.\<close>

definition orDefault :: "string field \<Rightarrow> string \<Rightarrow> string" where
  "orDefault f d = (case f of Present s \<Rightarrow> (if s = [] then d else s) | _ \<Rightarrow> d)"

definition nullish :: "'a field \<Rightarrow> 'a \<Rightarrow> 'a" where
  "nullish f d = (case f of Present b \<Rightarrow> b | _ \<Rightarrow> d)"

text \<open>
  \<open>{ key: dflt, ...options }\<close>: a key that \<open>options\<close> owns overwrites the default, also
  when its value is \<open>undefined\<close>.
\<close>

definition spreadOver :: "'a \<Rightarrow> 'a field \<Rightarrow> 'a option" where
  "spreadOver dflt f = (case f of Absent \<Rightarrow> Some dflt | Undefined \<Rightarrow> None | Present v \<Rightarrow> Some v)"

definition spreadOnly :: "'a field \<Rightarrow> 'a option" where
  "spreadOnly f = (case f of Present v \<Rightarrow> Some v | _ \<Rightarrow> None)"

definition mergeWithDefaults :: "AutoDocsOptions \<Rightarrow> Config" where
  "mergeWithDefaults options =
     \<lparr> cfgTitle = title options,
       cfgVersion = version options,
       cfgDescription = spreadOnly (description options),
       cfgSourcePath = spreadOver (orDefault (sourcePath options) ''src'') (sourcePath options),
       cfgGlobalPrefix = spreadOnly (globalPrefix options),
       cfgDocsPath = spreadOver (orDefault (docsPath options) ''/docs'') (docsPath options),
       cfgSpecPath = spreadOver (orDefault (specPath options) ''/docs-json'') (specPath options),
       cfgServers = spreadOnly (servers options),
       cfgTheme = spreadOnly (theme options),
       cfgCategoryMapping = spreadOnly (categoryMapping options),
       cfgScanOnStart = spreadOver (nullish (scanOnStart options) True) (scanOnStart options),
       cfgWatchMode = spreadOver (nullish (watchMode options) False) (watchMode options),
       cfgExclude = spreadOnly (exclude options),
       cfgIncludeSecurity =
         spreadOver (nullish (includeSecurity options) True) (includeSecurity options),
       cfgSecurityScheme = spreadOnly (securityScheme options),
       cfgVersioning = spreadOnly (versioning options) \<rparr>"

text \<open>The constructor: validation first, then the merge; a \<open>throw\<close> is \<open>Inl\<close>.\<close>

definition ConfigService :: "AutoDocsOptions \<Rightarrow> string + Config" where
  "ConfigService options =
     (case validateRequiredFields options of
        Inl e \<Rightarrow> Inl e
      | Inr _ \<Rightarrow> Inr (mergeWithDefaults options))"

section \<open>Validator extractor (src/scanner/validator-extractor.ts)\<close>

datatype jsValue =
    JUndefined
  | JNull
  | JString string
  | JNumber real
  | JBool bool
  | JArray "jsValue list"
  | JObject "(string \<times> jsValue) list"

text \<open>A decorator as the extractor reads it: its name and the source text of its arguments.\<close>

record Decorator =
  getName :: string
  getArguments :: "string list"

record ValidatorMetadata =
  vname :: string
  vargs :: "jsValue list option"
  vconstraints :: "(string \<times> jsValue) list"

text \<open>\<open>args[i]\<close>: \<open>None\<close> is \<open>undefined\<close>, an index past the end.\<close>

definition argAt :: "string list \<Rightarrow> nat \<Rightarrow> string option" where
  "argAt args i = (if i < length args then Some (args ! i) else None)"

text \<open>
  \<open>parseArgument\<close>. The built-in \<open>parseInt\<close> is a parameter: \<open>None\<close> is its \<open>NaN\<close>.
\<close>

definition parseArgument :: "(string \<Rightarrow> int option) \<Rightarrow> string option \<Rightarrow> jsValue" where
  "parseArgument parseInt arg =
     (case arg of
        None \<Rightarrow> JUndefined
      | Some text \<Rightarrow> (case parseInt text of None \<Rightarrow> JString text | Some num \<Rightarrow> JNumber (of_int num)))"

definition extractEnumValues :: "string \<Rightarrow> jsValue list" where
  "extractEnumValues enumText = [JString enumText]"

text \<open>\<open>text.replace(/^\<bslash>/|\<bslash>/$/g, '')\<close>: one leading and one trailing slash removed.\<close>

definition stripPatternSlashes :: "string \<Rightarrow> string" where
  "stripPatternSlashes s =
     (let s1 = (if s \<noteq> [] \<and> hd s = CHR ''/'' then tl s else s)
      in if s1 \<noteq> [] \<and> last s1 = CHR ''/'' then butlast s1 else s1)"

definition optText :: "string option \<Rightarrow> jsValue" where
  "optText a = (case a of None \<Rightarrow> JUndefined | Some t \<Rightarrow> JString t)"

definition plainValidator :: "string \<Rightarrow> (string \<times> jsValue) list \<Rightarrow> ValidatorMetadata option" where
  "plainValidator name cs = Some \<lparr> vname = name, vargs = None, vconstraints = cs \<rparr>"

definition mapValidatorDecorator ::
  "(string \<Rightarrow> int option) \<Rightarrow> Decorator \<Rightarrow> ValidatorMetadata option" where
  "mapValidatorDecorator parseInt decorator =
     (let name = getName decorator;
          args = getArguments decorator;
          a0 = parseArgument parseInt (argAt args 0);
          a1 = parseArgument parseInt (argAt args 1)
      in
      if name = ''IsString'' then plainValidator name [(''type'', JString ''string'')]
      else if name = ''IsEmail'' then plainValidator name [(''format'', JString ''email'')]
      else if name = ''IsUrl'' \<or> name = ''IsURL''
        then plainValidator name [(''format'', JString ''uri'')]
      else if name = ''IsUUID'' then plainValidator name [(''format'', JString ''uuid'')]
      else if name = ''MinLength''
        then Some \<lparr> vname = name, vargs = Some [a0], vconstraints = [(''minLength'', a0)] \<rparr>
      else if name = ''MaxLength''
        then Some \<lparr> vname = name, vargs = Some [a0], vconstraints = [(''maxLength'', a0)] \<rparr>
      else if name = ''Length''
        then Some \<lparr> vname = name, vargs = Some [a0, a1],
                    vconstraints = [(''minLength'', a0), (''maxLength'', a1)] \<rparr>
      else if name = ''Matches''
        then Some \<lparr> vname = name, vargs = Some [optText (argAt args 0)],
                    vconstraints =
                      [(''pattern'', optText (map_option stripPatternSlashes (argAt args 0)))] \<rparr>
      else if name = ''IsNumber'' \<or> name = ''IsInt'' \<or> name = ''IsDecimal''
        then plainValidator name [(''type'', JString ''number'')]
      else if name = ''Min''
        then Some \<lparr> vname = name, vargs = Some [a0], vconstraints = [(''minimum'', a0)] \<rparr>
      else if name = ''Max''
        then Some \<lparr> vname = name, vargs = Some [a0], vconstraints = [(''maximum'', a0)] \<rparr>
      else if name = ''IsBoolean'' then plainValidator name [(''type'', JString ''boolean'')]
      else if name = ''IsDate'' \<or> name = ''IsDateString''
        then plainValidator name [(''format'', JString ''date-time'')]
      else if name = ''IsEnum''
        then (case argAt args 0 of
                Some enumArg \<Rightarrow>
                  Some \<lparr> vname = name, vargs = Some [JString enumArg],
                         vconstraints = [(''enum'', JArray (extractEnumValues enumArg))] \<rparr>
              | None \<Rightarrow> plainValidator name [])
      else if name = ''IsArray'' then plainValidator name [(''type'', JString ''array'')]
      else if name = ''ArrayMinSize''
        then Some \<lparr> vname = name, vargs = Some [a0], vconstraints = [(''minItems'', a0)] \<rparr>
      else if name = ''ArrayMaxSize''
        then Some \<lparr> vname = name, vargs = Some [a0], vconstraints = [(''maxItems'', a0)] \<rparr>
      else if name = ''IsOptional'' then plainValidator name [(''required'', JBool False)]
      else if name = ''IsNotEmpty'' then plainValidator name [(''required'', JBool True)]
      else if name = ''IsObject'' then plainValidator name [(''type'', JString ''object'')]
      else if startsWith name ''Is'' \<or> startsWith name ''Validate''
        then plainValidator name []
      else None)"

text \<open>The \<open>case\<close> labels of the \<open>switch\<close>: the recognized annotation names.\<close>

definition recognizedValidators :: "string list" where
  "recognizedValidators =
     [''IsString'', ''IsEmail'', ''IsUrl'', ''IsURL'', ''IsUUID'', ''MinLength'', ''MaxLength'',
      ''Length'', ''Matches'', ''IsNumber'', ''IsInt'', ''IsDecimal'', ''Min'', ''Max'',
      ''IsBoolean'', ''IsDate'', ''IsDateString'', ''IsEnum'', ''IsArray'', ''ArrayMinSize'',
      ''ArrayMaxSize'', ''IsOptional'', ''IsNotEmpty'', ''IsObject'']"

fun extractValidators ::
  "(string \<Rightarrow> int option) \<Rightarrow> Decorator list \<Rightarrow> ValidatorMetadata list" where
  "extractValidators parseInt [] = []"
| "extractValidators parseInt (d # ds) =
     (case mapValidatorDecorator parseInt d of
        Some v \<Rightarrow> v # extractValidators parseInt ds
      | None \<Rightarrow> extractValidators parseInt ds)"

section \<open>DTO analyzer (src/scanner/dto-analyzer.ts)\<close>

text \<open>
  The analyzer reads a type of the compiler API through its text and a handful of tests.
  \<open>typeKind\<close> is the first of the tests \<open>isString\<close>, \<open>isNumber\<close>, \<open>isBoolean\<close>, \<open>isEnum\<close>,
  \<open>isUnion\<close>, \<open>isObject\<close> that holds for a type that is not an array, in the order in which
  \<open>analyzeType\<close> asks them. An enum carries the \<open>types\<close> of its compiler type (\<open>None\<close> when
  that field is undefined), a union the texts of its members, an object type the name of its
  symbol (\<open>None\<close> when it has none). An array type is an object type whose symbol is
  declared by an interface of the standard library, never by a class.
\<close>

datatype typeKind =
    KString
  | KNumber
  | KBoolean
  | KEnum "jsValue list option"
  | KUnion "string list"
  | KObject "string option"
  | KOther

datatype tsType =
    Type string typeKind
  | ArrayType string tsType

fun getText :: "tsType \<Rightarrow> string" where
  "getText (Type n k) = n"
| "getText (ArrayType n e) = n"

fun isArrayType :: "tsType \<Rightarrow> bool" where
  "isArrayType (Type n k) = False"
| "isArrayType (ArrayType n e) = True"

fun isString :: "tsType \<Rightarrow> bool" where
  "isString (Type n KString) = True"
| "isString t = False"

fun isNumber :: "tsType \<Rightarrow> bool" where
  "isNumber (Type n KNumber) = True"
| "isNumber t = False"

fun isBoolean :: "tsType \<Rightarrow> bool" where
  "isBoolean (Type n KBoolean) = True"
| "isBoolean t = False"

fun isEnumType :: "tsType \<Rightarrow> bool" where
  "isEnumType (Type n (KEnum vs)) = True"
| "isEnumType t = False"

fun isUnion :: "tsType \<Rightarrow> bool" where
  "isUnion (Type n (KUnion ms)) = True"
| "isUnion t = False"

fun isObject :: "tsType \<Rightarrow> bool" where
  "isObject (Type n (KObject s)) = True"
| "isObject (ArrayType n e) = True"
| "isObject t = False"

text \<open>\<open>enumType.types?.map(t => t.value) || []\<close>\<close>

fun enumValuesOf :: "tsType \<Rightarrow> jsValue list" where
  "enumValuesOf (Type n (KEnum (Some vs))) = vs"
| "enumValuesOf t = []"

fun getUnionTypes :: "tsType \<Rightarrow> string list" where
  "getUnionTypes (Type n (KUnion ms)) = ms"
| "getUnionTypes t = []"

record PropertyDeclaration =
  propName :: string
  propType :: tsType
  hasQuestionToken :: bool
  hasInitializer :: bool
  propJsDocs :: "string list"

text \<open>A declaration of a symbol: its syntax kind, and for a class its name, properties and
  documentation comments.\<close>

record Declaration =
  getKind :: nat
  declName :: "string option"
  getProperties :: "PropertyDeclaration list"
  getJsDocs :: "string list"

text \<open>The program under analysis: the declarations of every symbol, by symbol name.\<close>

type_synonym program = "(string \<times> Declaration list) list"

text \<open>
  \<open>baseType.getSymbol()\<close>, \<open>symbol.getDeclarations()\<close>, \<open>declarations[0]\<close> and the test
  \<open>declaration.getKind() === 256\<close>, which the source comments as "ClassDeclaration".
\<close>

definition classDeclarationKind :: nat where
  "classDeclarationKind = 256"

fun classDeclarationOf :: "program \<Rightarrow> tsType \<Rightarrow> Declaration option" where
  "classDeclarationOf prog (Type n (KObject (Some symbolName))) =
     (case map_of prog symbolName of
        Some (declaration # ds) \<Rightarrow>
          (if getKind declaration = classDeclarationKind then Some declaration else None)
      | _ \<Rightarrow> None)"
| "classDeclarationOf prog t = None"

text \<open>
  The result types of src/interfaces/metadata.interface.ts. \<open>PropertyMetadata\<close> also declares
  the optional keys \<open>validators\<close> and \<open>example\<close>, which the analyzer never sets and the example
  generator never reads.
\<close>

datatype TypeMetadata =
  TypeMetadata
    (tmType: string)
    (isPrimitive: bool)
    (isArray: bool)
    (isEnum: bool)
    (isOptional: bool)
    (elementType: "TypeMetadata option")
    (properties: "PropertyMetadata list option")
    (unionTypes: "string list option")
    (enumValues: "jsValue list option")
    (format: "string option")
and PropertyMetadata =
  PropertyMetadata
    (pmName: string)
    (pmType: TypeMetadata)
    (required: bool)
    (pmDescription: "string option")

record DtoMetadata =
  dtoName :: string
  dtoProperties :: "PropertyMetadata list"
  dtoDescription :: "string option"

definition maxDepth :: nat where
  "maxDepth = 5"

definition detectStringFormat :: "string \<Rightarrow> string option" where
  "detectStringFormat typeName =
     (let lowerType = toLowerCase typeName in
      if includes_str lowerType ''email'' then Some ''email''
      else if includes_str lowerType ''url'' \<or> includes_str lowerType ''uri'' then Some ''uri''
      else if includes_str lowerType ''uuid'' then Some ''uuid''
      else if includes_str lowerType ''date'' then Some ''date-time''
      else None)"

text \<open>The descriptor returned past the depth bound, and the one returned for a visited name.\<close>

definition unknownType :: TypeMetadata where
  "unknownType = TypeMetadata ''unknown'' False False False False None None None None None"

definition referenceTo :: "string \<Rightarrow> TypeMetadata" where
  "referenceTo typeName = TypeMetadata typeName False False False False None None None None None"

text \<open>\<open>jsDocs.length > 0 ? jsDocs[0].getDescription().trim() : undefined\<close>\<close>

definition jsDocDescription :: "string list \<Rightarrow> string option" where
  "jsDocDescription jsDocs = (case jsDocs of [] \<Rightarrow> None | d # ds \<Rightarrow> Some (trim d))"

text \<open>
  The analyzer object holds \<open>visitedTypes\<close>, a set of type texts; every method takes the set
  and returns it updated. The recursion of \<open>analyzeType\<close> through \<open>analyzeProperty\<close> is not
  structural, so the functions take fuel: \<open>None\<close> is fuel running out, and a call of the
  source returns exactly when some amount of fuel gives \<open>Some\<close>.
\<close>

definition shallowType ::
  "string \<Rightarrow> tsType \<Rightarrow> bool \<Rightarrow> TypeMetadata option \<Rightarrow> TypeMetadata option" where
  "shallowType typeName baseType isArr elemType =
     (if isString baseType then
        Some (TypeMetadata ''string'' True isArr False False elemType None None None
                (detectStringFormat typeName))
      else if isNumber baseType then
        Some (TypeMetadata ''number'' True isArr False False elemType None None None None)
      else if isBoolean baseType then
        Some (TypeMetadata ''boolean'' True isArr False False elemType None None None None)
      else if includes_str typeName ''Date'' then
        Some (TypeMetadata ''string'' True isArr False False elemType None None None
                (Some ''date-time''))
      else if isEnumType baseType then
        Some (TypeMetadata ''string'' False isArr True False elemType None None
                (Some (enumValuesOf baseType)) None)
      else if isUnion baseType then
        Some (TypeMetadata typeName False isArr False False elemType None
                (Some (getUnionTypes baseType)) None None)
      else None)"

definition fallbackType :: "string \<Rightarrow> bool \<Rightarrow> TypeMetadata option \<Rightarrow> TypeMetadata" where
  "fallbackType typeName isArr elemType =
     TypeMetadata typeName False isArr False False elemType None None None None"

definition classType ::
  "tsType \<Rightarrow> bool \<Rightarrow> TypeMetadata option \<Rightarrow> PropertyMetadata list \<Rightarrow> TypeMetadata" where
  "classType baseType isArr elemType props =
     TypeMetadata (getText baseType) False isArr False False elemType (Some props) None None None"

fun getArrayElementType :: "tsType \<Rightarrow> tsType option" where
  "getArrayElementType (ArrayType n e) = Some e"
| "getArrayElementType (Type n k) = None"

text \<open>
  \<open>analyzeType\<close> in the order of the source: the depth bound, the visited check, the element
  type of an array, the tests on the base type that need no recursion (\<open>shallowType\<close>: string,
  number, boolean, Date, enum, union), the object branch, which adds the type text to
  \<open>visitedTypes\<close> and expands the properties when the first declaration of the symbol is a
  class (\<open>classType\<close>), and the default (\<open>fallbackType\<close>).
\<close>

function (sequential) analyzeType ::
    "nat \<Rightarrow> program \<Rightarrow> string set \<Rightarrow> tsType \<Rightarrow> nat \<Rightarrow> (TypeMetadata \<times> string set) option"
  and analyzeProperty ::
    "nat \<Rightarrow> program \<Rightarrow> string set \<Rightarrow> PropertyDeclaration
       \<Rightarrow> (PropertyMetadata \<times> string set) option"
  and analyzeProperties ::
    "nat \<Rightarrow> program \<Rightarrow> string set \<Rightarrow> PropertyDeclaration list
       \<Rightarrow> (PropertyMetadata list \<times> string set) option"
where
  "analyzeType 0 prog visitedTypes t depth = None"
| "analyzeType (Suc fuel) prog visitedTypes t depth =
     (if depth > maxDepth then Some (unknownType, visitedTypes)
      else if getText t \<in> visitedTypes then Some (referenceTo (getText t), visitedTypes)
      else
        case (case getArrayElementType t of
                Some e \<Rightarrow>
                  map_option (\<lambda>r. (e, Some (fst r), snd r))
                    (analyzeType fuel prog visitedTypes e (depth + 1))
              | None \<Rightarrow> Some (t, None, visitedTypes)) of
          None \<Rightarrow> None
        | Some (baseType, elemType, visited1) \<Rightarrow>
            (case shallowType (getText t) baseType (isArrayType t) elemType of
               Some m \<Rightarrow> Some (m, visited1)
             | None \<Rightarrow>
                 if isObject baseType then
                   (case classDeclarationOf prog baseType of
                      Some classDecl \<Rightarrow>
                        map_option (\<lambda>r. (classType baseType (isArrayType t) elemType (fst r), snd r))
                          (analyzeProperties fuel prog (insert (getText t) visited1)
                             (getProperties classDecl))
                    | None \<Rightarrow>
                        Some (fallbackType (getText t) (isArrayType t) elemType,
                              insert (getText t) visited1))
                 else Some (fallbackType (getText t) (isArrayType t) elemType, visited1)))"
| "analyzeProperty fuel prog visitedTypes property =
     map_option
       (\<lambda>r. (PropertyMetadata (propName property) (fst r)
                (\<not> hasQuestionToken property \<and> \<not> hasInitializer property)
                (jsDocDescription (propJsDocs property)), snd r))
       (analyzeType fuel prog visitedTypes (propType property) 0)"
| "analyzeProperties fuel prog visitedTypes [] = Some ([], visitedTypes)"
| "analyzeProperties fuel prog visitedTypes (p # ps) =
     (case analyzeProperty fuel prog visitedTypes p of
        None \<Rightarrow> None
      | Some (m, visited1) \<Rightarrow>
          map_option (\<lambda>r. (m # fst r, snd r)) (analyzeProperties fuel prog visited1 ps))"
  by pat_completeness auto

text \<open>Every call consumes fuel, moves from a property list to a property and on to its type,
  or shortens the property list.\<close>

termination
  by (relation "measures
        [\<lambda>x. case x of Inl (f, _) \<Rightarrow> f | Inr (Inl (f, _)) \<Rightarrow> f | Inr (Inr (f, _)) \<Rightarrow> f,
         \<lambda>x. case x of Inl _ \<Rightarrow> 0 | Inr (Inl _) \<Rightarrow> 1 | Inr (Inr _) \<Rightarrow> 2,
         \<lambda>x. case x of Inr (Inr (f, p, v, ps)) \<Rightarrow> length ps | _ \<Rightarrow> 0]") auto

text \<open>\<open>analyzeDto\<close> clears \<open>visitedTypes\<close> before it maps over the properties.\<close>

definition analyzeDto ::
  "nat \<Rightarrow> program \<Rightarrow> string set \<Rightarrow> Declaration \<Rightarrow> (DtoMetadata \<times> string set) option" where
  "analyzeDto fuel prog visitedTypes classDeclaration =
     (let className = (case declName classDeclaration of Some n \<Rightarrow> (if n = [] then ''UnknownDto'' else n)
                        | None \<Rightarrow> ''UnknownDto'');
          description = jsDocDescription (getJsDocs classDeclaration)
      in
      case analyzeProperties fuel prog {} (getProperties classDeclaration) of
        None \<Rightarrow> None
      | Some (props, visited1) \<Rightarrow>
          Some (\<lparr> dtoName = className, dtoProperties = props, dtoDescription = description \<rparr>,
                visited1))"

section \<open>Example generator (src/generators/example-generator.ts)\<close>

definition generatePrimitiveExample :: "TypeMetadata \<Rightarrow> string option \<Rightarrow> jsValue" where
  "generatePrimitiveExample typeMetadata fieldName =
     (let fmt = (case format typeMetadata of Some f \<Rightarrow> (if f = [] then None else Some f)
                 | None \<Rightarrow> None);
          lowerName = (case fieldName of Some f \<Rightarrow> (if f = [] then None else Some (toLowerCase f))
                       | None \<Rightarrow> None);
          nameHas = (\<lambda>sub. case lowerName of Some l \<Rightarrow> includes_str l sub | None \<Rightarrow> False);
          nameIs = (\<lambda>str. lowerName = Some str);
          nameEnds = (\<lambda>suffix. case lowerName of Some l \<Rightarrow> endsWith l suffix | None \<Rightarrow> False);
          ty = tmType typeMetadata
      in
      if fmt = Some ''email'' then JString ''user@example.com''
      else if fmt = Some ''uri'' \<or> fmt = Some ''url'' then JString ''https://example.com''
      else if fmt = Some ''uuid'' then JString ''123e4567-e89b-12d3-a456-426614174000''
      else if fmt = Some ''date'' then JString ''2026-01-19''
      else if fmt = Some ''date-time'' then JString ''2026-01-19T12:00:00Z''
      else if fmt = Some ''password'' then JString ''P@ssw0rd123''
      else if nameHas ''email'' then JString ''user@example.com''
      else if nameHas ''firstname'' \<or> nameIs ''first_name'' then JString ''John''
      else if nameHas ''lastname'' \<or> nameIs ''last_name'' then JString ''Doe''
      else if nameHas ''name'' \<and> \<not> nameHas ''username'' then JString ''Example Name''
      else if nameHas ''username'' then JString ''johndoe''
      else if nameHas ''phone'' \<or> nameHas ''mobile'' then JString ''+1234567890''
      else if nameHas ''address'' then JString ''123 Main St''
      else if nameHas ''city'' then JString ''New York''
      else if nameHas ''country'' then JString ''USA''
      else if nameHas ''zip'' \<or> nameHas ''postal'' then JString ''10001''
      else if nameHas ''url'' \<or> nameHas ''website'' then JString ''https://example.com''
      else if nameEnds ''id'' \<or> nameHas ''_id'' then JNumber 1
      else if nameHas ''date'' \<and> \<not> nameHas ''update'' then JString ''2026-01-19''
      else if nameHas ''createdat'' then JString ''2026-01-19T12:00:00Z''
      else if nameHas ''updatedat'' then JString ''2026-01-19T12:00:00Z''
      else if nameHas ''status'' then JString ''active''
      else if nameHas ''role'' then JString ''user''
      else if nameHas ''description'' \<or> nameHas ''desc'' then JString ''Example description''
      else if nameHas ''title'' then JString ''Example Title''
      else if nameHas ''price'' \<or> nameHas ''amount'' then JNumber (9999 / 100)
      else if nameHas ''quantity'' \<or> nameHas ''count'' then JNumber 10
      else if nameHas ''is'' \<or> nameHas ''has'' \<or> nameHas ''can'' then JBool True
      else if ty = ''string'' then JString ''example''
      else if ty = ''number'' then JNumber 42
      else if ty = ''integer'' then JNumber 42
      else if ty = ''boolean'' then JBool True
      else JNull)"

text \<open>
  An object literal as the list of its own keys in the order in which they are enumerated:
  the keys that are array indices (canonical decimal numerals below \<open>2^32 - 1\<close>) in
  ascending order, then the other keys in the order of their creation.
\<close>

definition isDigitChar :: "char \<Rightarrow> bool" where
  "isDigitChar c = (let n = (of_char c :: nat) in 48 \<le> n \<and> n \<le> 57)"

fun decimalValue :: "string \<Rightarrow> int \<Rightarrow> int" where
  "decimalValue [] acc = acc"
| "decimalValue (c # cs) acc = decimalValue cs (10 * acc + ((of_char c :: int) - 48))"

definition arrayIndex :: "string \<Rightarrow> int option" where
  "arrayIndex k =
     (if k \<noteq> [] \<and> list_all isDigitChar k \<and> (k = ''0'' \<or> hd k \<noteq> CHR ''0'') \<and>
         decimalValue k 0 < 4294967295
      then Some (decimalValue k 0) else None)"

fun replaceProperty ::
  "(string \<times> jsValue) list \<Rightarrow> string \<Rightarrow> jsValue \<Rightarrow> (string \<times> jsValue) list" where
  "replaceProperty [] k v = []"
| "replaceProperty ((k', v') # kvs) k v =
     (if k' = k then (k, v) # kvs else (k', v') # replaceProperty kvs k v)"

fun insertIndexed ::
  "(string \<times> jsValue) list \<Rightarrow> int \<Rightarrow> string \<Rightarrow> jsValue \<Rightarrow> (string \<times> jsValue) list" where
  "insertIndexed [] i k v = [(k, v)]"
| "insertIndexed ((k', v') # kvs) i k v =
     (case arrayIndex k' of
        Some j \<Rightarrow>
          (if j < i then (k', v') # insertIndexed kvs i k v else (k, v) # (k', v') # kvs)
      | None \<Rightarrow> (k, v) # (k', v') # kvs)"

text \<open>
  \<open>example[key] = value\<close> on an object that started as \<open>{}\<close>. The key \<open>__proto__\<close> is the
  accessor of \<open>Object.prototype\<close>: the assignment creates no key of the object's own. A key
  already there keeps its place; a new key takes its place in the enumeration order.
\<close>

definition setProperty ::
  "(string \<times> jsValue) list \<Rightarrow> string \<Rightarrow> jsValue \<Rightarrow> (string \<times> jsValue) list" where
  "setProperty kvs k v =
     (if k = ''__proto__'' then kvs
      else if k \<in> set (map fst kvs) then replaceProperty kvs k v
      else case arrayIndex k of
             Some i \<Rightarrow> insertIndexed kvs i k v
           | None \<Rightarrow> kvs @ [(k, v)])"

text \<open>
  \<open>generateExample\<close>, \<open>generateFromType\<close> and the loop over the properties of an object
  (\<open>generateProperties\<close>, with the object built so far). \<open>PropertyMetadata.type\<close> is a
  required key, so the test \<open>if (property.type)\<close> of \<open>generateExample\<close> holds.
\<close>

function generateExample :: "PropertyMetadata \<Rightarrow> jsValue"
  and generateFromType :: "TypeMetadata \<Rightarrow> string option \<Rightarrow> jsValue"
  and generateProperties ::
    "PropertyMetadata list \<Rightarrow> (string \<times> jsValue) list \<Rightarrow> (string \<times> jsValue) list"
where
  "generateExample (PropertyMetadata name ty req desc) = generateFromType ty (Some name)"
| "generateFromType (TypeMetadata ty prim arr enm opt elemT props unionT enumVs fmt) fieldName =
     (if prim then
        generatePrimitiveExample
          (TypeMetadata ty prim arr enm opt elemT props unionT enumVs fmt) fieldName
      else
        case (if arr then elemT else None) of
          Some e \<Rightarrow> JArray [generateFromType e None]
        | None \<Rightarrow>
            (case (if enm then enumVs else None) of
               Some (v # vs) \<Rightarrow> v
             | _ \<Rightarrow>
                 (case props of
                    Some ps \<Rightarrow> JObject (generateProperties ps [])
                  | None \<Rightarrow> JNull)))"
| "generateProperties [] example = example"
| "generateProperties (prop # rest) example =
     generateProperties rest (setProperty example (pmName prop) (generateExample prop))"
  by pat_completeness auto

termination
  by (relation "measure
        (\<lambda>x. case x of
               Inl p \<Rightarrow> size p
             | Inr (Inl (t, f)) \<Rightarrow> size t
             | Inr (Inr (ps, acc)) \<Rightarrow> Suc (size_list size ps))")
     (auto split: if_splits)

section \<open>Path utilities (src/utils/path-utils.spec.ts)\<close>

text \<open>\<open>segment.replace(/^\<bslash>/+|\<bslash>/+$/g, '')\<close>\<close>

definition stripSlashes :: "string \<Rightarrow> string" where
  "stripSlashes segment =
     rev (dropWhile (\<lambda>c. c = CHR ''/'') (rev (dropWhile (\<lambda>c. c = CHR ''/'') segment)))"

fun joinWith :: "string \<Rightarrow> string list \<Rightarrow> string" where
  "joinWith sep [] = []"
| "joinWith sep [x] = x"
| "joinWith sep (x # y # ys) = x @ sep @ joinWith sep (y # ys)"

text \<open>
  \<open>combinePaths\<close>, which the specification calls \<open>combinePathSegments\<close>: drop the empty
  segments, strip the separators at both ends of each, drop what became empty, join.
\<close>

definition combinePaths :: "string list \<Rightarrow> string" where
  "combinePaths segments =
     joinWith ''/'' (filter (\<lambda>s. s \<noteq> []) (map stripSlashes (filter (\<lambda>s. s \<noteq> []) segments)))"

section \<open>Route scanner: the full path of a route\<close>



section \<open>Specification synthesizer\<close>

record RouteMetadata =
  routeName :: string
  httpMethod :: string
  routePath :: string
  fullPath :: string
  routeDescription :: "string option"
  isPublic :: "bool option"

record ControllerMetadata =
  controllerName :: string
  controllerPath :: string
  filePath :: string
  category :: string
  controllerVersion :: "string option"
  routes :: "RouteMetadata list"

text \<open>The part of the document the versioning rules decide: the path table, each path key with
  its operations (HTTP method and handler name), and the server list.\<close>

record SpecificationDocument =
  docPaths :: "(string \<times> (string \<times> string) list) list"
  docServers :: "ServerConfig list"

text \<open>
  Modelled from the spec: \<open>OpenApiGenerator.generate\<close> (src/generators/openapi-generator.ts is
  not among the sources), from section 4.6. With versioning enabled every version has the
  path prefix \<open>prefix + '/' + version\<close> and a server entry at that url labelled
  \<open>"API <VERSION>"\<close>, the version in upper case; a service without a version is mounted under
  the configured fallback prefix. With versioning disabled every route is mounted under the
  global prefix and one server entry is emitted. Path keys carry no leading separator. The
  default of \<open>prefix\<close> is \<open>'/api'\<close> (src/interfaces/options.interface.ts).
\<close>

definition versioningPrefix :: "VersioningConfig \<Rightarrow> string" where
  "versioningPrefix v = (case prefix v of Some p \<Rightarrow> p | None \<Rightarrow> ''/api'')"

definition versionPathPrefix :: "VersioningConfig \<Rightarrow> string \<Rightarrow> string" where
  "versionPathPrefix v ver = versioningPrefix v @ ''/'' @ ver"

definition activeVersioning :: "AutoDocsOptions \<Rightarrow> VersioningConfig option" where
  "activeVersioning options =
     (case versioning options of
        Present v \<Rightarrow> (if enabled v then Some v else None)
      | _ \<Rightarrow> None)"

definition controllerPrefix :: "AutoDocsOptions \<Rightarrow> ControllerMetadata \<Rightarrow> string" where
  "controllerPrefix options controller =
     (case activeVersioning options of
        Some v \<Rightarrow>
          (case controllerVersion controller of
             Some ver \<Rightarrow> versionPathPrefix v ver
           | None \<Rightarrow> (case fallback v of Some f \<Rightarrow> f | None \<Rightarrow> []))
      | None \<Rightarrow> (case globalPrefix options of Present g \<Rightarrow> g | _ \<Rightarrow> []))"

definition pathKey :: "AutoDocsOptions \<Rightarrow> ControllerMetadata \<Rightarrow> RouteMetadata \<Rightarrow> string" where
  "pathKey options controller route =
     combinePaths [controllerPrefix options controller, fullPath route]"

fun addOperation ::
  "(string \<times> (string \<times> string) list) list \<Rightarrow> string \<Rightarrow> string \<times> string
     \<Rightarrow> (string \<times> (string \<times> string) list) list" where
  "addOperation [] key operation = [(key, [operation])]"
| "addOperation ((k, ops) # table) key operation =
     (if k = key then (k, ops @ [operation]) # table
      else (k, ops) # addOperation table key operation)"

fun addRoutes ::
  "AutoDocsOptions \<Rightarrow> ControllerMetadata \<Rightarrow> RouteMetadata list
     \<Rightarrow> (string \<times> (string \<times> string) list) list \<Rightarrow> (string \<times> (string \<times> string) list) list" where
  "addRoutes options controller [] table = table"
| "addRoutes options controller (r # rs) table =
     addRoutes options controller rs
       (addOperation table (pathKey options controller r) (httpMethod r, routeName r))"

fun generatePaths ::
  "AutoDocsOptions \<Rightarrow> ControllerMetadata list
     \<Rightarrow> (string \<times> (string \<times> string) list) list \<Rightarrow> (string \<times> (string \<times> string) list) list" where
  "generatePaths options [] table = table"
| "generatePaths options (c # cs) table =
     generatePaths options cs (addRoutes options c (routes c) table)"

text \<open>The versions of the services, each once, in the order of their first service.\<close>

fun detectedVersions :: "ControllerMetadata list \<Rightarrow> string list \<Rightarrow> string list" where
  "detectedVersions [] seen = seen"
| "detectedVersions (c # cs) seen =
     (case controllerVersion c of
        Some ver \<Rightarrow> detectedVersions cs (if ver \<in> set seen then seen else seen @ [ver])
      | None \<Rightarrow> detectedVersions cs seen)"

definition versionServer :: "VersioningConfig \<Rightarrow> string \<Rightarrow> ServerConfig" where
  "versionServer v ver =
     \<lparr> url = versionPathPrefix v ver, serverDescription = Some (''API '' @ toUpperCase ver) \<rparr>"

definition generateServers :: "AutoDocsOptions \<Rightarrow> ControllerMetadata list \<Rightarrow> ServerConfig list" where
  "generateServers options controllers =
     (case activeVersioning options of
        Some v \<Rightarrow> map (versionServer v) (detectedVersions controllers [])
      | None \<Rightarrow>
          [\<lparr> url = (case globalPrefix options of Present g \<Rightarrow> g | _ \<Rightarrow> []),
             serverDescription = None \<rparr>])"

text \<open>Modelled from the spec: \<open>OpenApiGenerator.generate\<close>, the path table and the server list
  of the document (section 4.6).\<close>

definition generate :: "ControllerMetadata list \<Rightarrow> AutoDocsOptions \<Rightarrow> SpecificationDocument" where
  "generate controllers options =
     \<lparr> docPaths = generatePaths options controllers [],
       docServers = generateServers options controllers \<rparr>"

section \<open>Auxiliary notions for the proofs\<close>

text \<open>The part of \<open>analyzeType\<close> that follows the analysis of the element type.\<close>

definition analyzeBase ::
  "nat \<Rightarrow> program \<Rightarrow> tsType \<Rightarrow> tsType \<Rightarrow> TypeMetadata option \<Rightarrow> string set
     \<Rightarrow> (TypeMetadata \<times> string set) option" where
  "analyzeBase fuel prog t baseType elemType visited1 =
     (case shallowType (getText t) baseType (isArrayType t) elemType of
        Some m \<Rightarrow> Some (m, visited1)
      | None \<Rightarrow>
          if isObject baseType then
            (case classDeclarationOf prog baseType of
               Some classDecl \<Rightarrow>
                 map_option (\<lambda>r. (classType baseType (isArrayType t) elemType (fst r), snd r))
                   (analyzeProperties fuel prog (insert (getText t) visited1)
                      (getProperties classDecl))
             | None \<Rightarrow>
                 Some (fallbackType (getText t) (isArrayType t) elemType,
                       insert (getText t) visited1))
          else Some (fallbackType (getText t) (isArrayType t) elemType, visited1))"

text \<open>The type texts a run of the analyzer can add to \<open>visitedTypes\<close>: the text of a type and of
  its element types, and those of the property types the program declares.\<close>

fun typeTexts :: "tsType \<Rightarrow> string set" where
  "typeTexts (Type n k) = {n}"
| "typeTexts (ArrayType n e) = insert n (typeTexts e)"

definition declaredProperties :: "program \<Rightarrow> PropertyDeclaration set" where
  "declaredProperties prog = (\<Union>ds \<in> snd ` set prog. \<Union>d \<in> set ds. set (getProperties d))"

definition programTexts :: "program \<Rightarrow> string set" where
  "programTexts prog = (\<Union>p \<in> declaredProperties prog. typeTexts (propType p))"

text \<open>The descriptor reached from a descriptor along a path of property names, and the one
  reached through a number of element types.\<close>

fun findProperty :: "PropertyMetadata list \<Rightarrow> string \<Rightarrow> TypeMetadata option" where
  "findProperty [] k = None"
| "findProperty (p # ps) k = (if pmName p = k then Some (pmType p) else findProperty ps k)"

fun typeAt :: "TypeMetadata \<Rightarrow> string list \<Rightarrow> TypeMetadata option" where
  "typeAt m [] = Some m"
| "typeAt m (k # ks) =
     (case properties m of
        None \<Rightarrow> None
      | Some ps \<Rightarrow> (case findProperty ps k of None \<Rightarrow> None | Some m' \<Rightarrow> typeAt m' ks))"

fun elementAt :: "TypeMetadata \<Rightarrow> nat \<Rightarrow> TypeMetadata option" where
  "elementAt m 0 = Some m"
| "elementAt m (Suc n) = (case elementType m of None \<Rightarrow> None | Some e \<Rightarrow> elementAt e n)"

section \<open>Concrete inputs\<close>

text \<open>Two annotations outside the lookup table: one that follows the naming convention, one
  that does not.\<close>

definition unrecognizedIs :: Decorator where
  "unrecognizedIs = \<lparr> getName = ''IsPhoneNumber'', getArguments = [''\"EG\"''] \<rparr>"

definition unrecognizedOther :: Decorator where
  "unrecognizedOther = \<lparr> getName = ''Transform'', getArguments = [] \<rparr>"

text \<open>The least configuration, and the same with a title of three blanks.\<close>

definition minimalOptions :: AutoDocsOptions where
  "minimalOptions =
     \<lparr> title = Some ''Test API'', version = Some ''1.0'', description = Absent,
       sourcePath = Absent, globalPrefix = Absent, docsPath = Absent, specPath = Absent,
       servers = Absent, theme = Absent, categoryMapping = Absent, scanOnStart = Absent,
       watchMode = Absent, exclude = Absent, includeSecurity = Absent,
       securityScheme = Absent, versioning = Absent \<rparr>"

definition blankTitleOptions :: AutoDocsOptions where
  "blankTitleOptions = minimalOptions \<lparr> title := Some ''   '' \<rparr>"

text \<open>A property named \<open>email\<close> whose declared format is \<open>uri\<close>, and a string property named
  \<open>contactUrl\<close> without a format.\<close>

definition emailUriProperty :: PropertyMetadata where
  "emailUriProperty =
     PropertyMetadata ''email''
       (TypeMetadata ''string'' True False False False None None None None (Some ''uri''))
       True None"

definition contactUrlProperty :: PropertyMetadata where
  "contactUrlProperty =
     PropertyMetadata ''contactUrl''
       (TypeMetadata ''string'' True False False False None None None None None)
       True None"

text \<open>Declarations and types of small programs.\<close>

definition stringType :: tsType where
  "stringType = Type ''string'' KString"

definition numberType :: tsType where
  "numberType = Type ''number'' KNumber"

definition classRef :: "string \<Rightarrow> tsType" where
  "classRef name = Type name (KObject (Some name))"

definition classDecl :: "string \<Rightarrow> PropertyDeclaration list \<Rightarrow> Declaration" where
  "classDecl name props =
     \<lparr> getKind = 256, declName = Some name, getProperties = props, getJsDocs = [] \<rparr>"

definition plainProperty :: "string \<Rightarrow> tsType \<Rightarrow> PropertyDeclaration" where
  "plainProperty name ty =
     \<lparr> propName = name, propType = ty, hasQuestionToken = False, hasInitializer = False,
       propJsDocs = [] \<rparr>"

text \<open>\<open>tags: string[]\<close>, and \<open>items: Item[]\<close> with \<open>class Item { sku: string }\<close>.\<close>

definition tagsProperty :: PropertyDeclaration where
  "tagsProperty = plainProperty ''tags'' (ArrayType ''string[]'' stringType)"

definition itemProgram :: program where
  "itemProgram = [(''Item'', [classDecl ''Item'' [plainProperty ''sku'' stringType]])]"

definition itemsProperty :: PropertyDeclaration where
  "itemsProperty = plainProperty ''items'' (ArrayType ''Item[]'' (classRef ''Item''))"

text \<open>\<open>limit: number = 10\<close>: an initializer and no question token.\<close>

definition defaultedProperty :: PropertyDeclaration where
  "defaultedProperty =
     \<lparr> propName = ''limit'', propType = numberType, hasQuestionToken = False,
       hasInitializer = True, propJsDocs = [] \<rparr>"



text \<open>Seven classes, each holding the next in a property \<open>child\<close>; the last holds a string.\<close>

definition chainProgram :: program where
  "chainProgram =
     [(''Level0'', [classDecl ''Level0'' [plainProperty ''child'' (classRef ''Level1'')]]),
      (''Level1'', [classDecl ''Level1'' [plainProperty ''child'' (classRef ''Level2'')]]),
      (''Level2'', [classDecl ''Level2'' [plainProperty ''child'' (classRef ''Level3'')]]),
      (''Level3'', [classDecl ''Level3'' [plainProperty ''child'' (classRef ''Level4'')]]),
      (''Level4'', [classDecl ''Level4'' [plainProperty ''child'' (classRef ''Level5'')]]),
      (''Level5'', [classDecl ''Level5'' [plainProperty ''child'' (classRef ''Level6'')]]),
      (''Level6'', [classDecl ''Level6'' [plainProperty ''value'' stringType]])]"

text \<open>\<open>string[][][][][][][]\<close>: seven array levels around \<open>string\<close>.\<close>

fun nestedArray :: "nat \<Rightarrow> tsType" where
  "nestedArray 0 = stringType"
| "nestedArray (Suc n) = ArrayType (getText (nestedArray n) @ ''[]'') (nestedArray n)"

text \<open>\<open>class Order { customer: Customer }\<close> and \<open>class Customer { name: string }\<close>.\<close>

definition orderProgram :: program where
  "orderProgram =
     [(''Order'', [classDecl ''Order'' [plainProperty ''customer'' (classRef ''Customer'')]]),
      (''Customer'', [classDecl ''Customer'' [plainProperty ''name'' stringType]])]"

text \<open>The data of the integration test "should generate separate paths for multiple
  versions": an admin service in version v1 and one in version v2, each with the route
  \<open>admin/profile\<close>, and versioning enabled with the prefix \<open>/api\<close>.\<close>

definition profileRoute :: RouteMetadata where
  "profileRoute =
     \<lparr> routeName = ''getProfile'', httpMethod = ''GET'', routePath = ''profile'',
       fullPath = ''/admin/profile'', routeDescription = None, isPublic = Some False \<rparr>"

definition adminV1 :: ControllerMetadata where
  "adminV1 =
     \<lparr> controllerName = ''AdminControllerV1'', controllerPath = ''admin'',
       filePath = ''src/api/v1/admin/admin.controller.ts'', category = ''Admin'',
       controllerVersion = Some ''v1'', routes = [profileRoute] \<rparr>"

definition adminV2 :: ControllerMetadata where
  "adminV2 =
     \<lparr> controllerName = ''AdminControllerV2'', controllerPath = ''admin'',
       filePath = ''src/api/v2/admin/admin.controller.ts'', category = ''Admin'',
       controllerVersion = Some ''v2'', routes = [profileRoute] \<rparr>"

definition versionedOptions :: AutoDocsOptions where
  "versionedOptions =
     minimalOptions \<lparr> versioning :=
       Present \<lparr> enabled = True, strategy = None, prefix = Some ''/api'', fallback = None \<rparr> \<rparr>"

text \<open>The third service of that test, a user service in version v2.\<close>

definition userProfileRoute :: RouteMetadata where
  "userProfileRoute =
     \<lparr> routeName = ''getProfile'', httpMethod = ''GET'', routePath = ''profile'',
       fullPath = ''/user/profile'', routeDescription = None, isPublic = Some False \<rparr>"

definition userV2 :: ControllerMetadata where
  "userV2 =
     \<lparr> controllerName = ''UserControllerV2'', controllerPath = ''user'',
       filePath = ''src/api/v2/user/user.controller.ts'', category = ''User'',
       controllerVersion = Some ''v2'', routes = [userProfileRoute] \<rparr>"

text \<open>\<open>{ title: 'Test API', version: '1.0', sourcePath: '', scanOnStart: undefined }\<close>\<close>

definition undefinedKeysOptions :: AutoDocsOptions where
  "undefinedKeysOptions =
     minimalOptions \<lparr> sourcePath := Present [], scanOnStart := Undefined \<rparr>"

section \<open>The analyzer returns\<close>

subsection \<open>One step of the analyzer\<close>

text \<open>\<open>analyzeType\<close> with one more unit of fuel, by cases as the source has them.\<close>

lemma analyzeType_Suc:
  "analyzeType (Suc f) prog V t d =
     (if d > maxDepth then Some (unknownType, V)
      else if getText t \<in> V then Some (referenceTo (getText t), V)
      else case getArrayElementType t of
             None \<Rightarrow> analyzeBase f prog t t None V
           | Some e \<Rightarrow>
               (case analyzeType f prog V e (d + 1) of
                  None \<Rightarrow> None
                | Some (m1, V1) \<Rightarrow> analyzeBase f prog t e (Some m1) V1))"
  by (simp add: analyzeBase_def split: option.splits prod.splits)

lemmas analyze_equations = analyzeType.simps analyzeProperty.simps analyzeProperties.simps

lemma analyzeProperty_Some:
  "analyzeProperty f prog V p = Some (m, V') \<longleftrightarrow>
     (\<exists>ty. analyzeType f prog V (propType p) 0 = Some (ty, V') \<and>
           m = PropertyMetadata (propName p) ty
                 (\<not> hasQuestionToken p \<and> \<not> hasInitializer p)
                 (jsDocDescription (propJsDocs p)))"
  by (auto simp del: analyzeType.simps)

lemma analyzeProperties_Cons_Some:
  "analyzeProperties f prog V (p # ps) = Some (ms, V') \<longleftrightarrow>
     (\<exists>m V1 ms'. analyzeProperty f prog V p = Some (m, V1) \<and>
        analyzeProperties f prog V1 ps = Some (ms', V') \<and> ms = m # ms')"
  by (auto simp del: analyzeProperty.simps split: option.splits)

subsection \<open>More fuel gives the same result\<close>

lemma analyzeProperties_fuel_step:
  assumes ty: "\<And>V t d r. analyzeType f prog V t d = Some r \<Longrightarrow> analyzeType (Suc f) prog V t d = Some r"
  shows "analyzeProperties f prog V ps = Some r \<Longrightarrow> analyzeProperties (Suc f) prog V ps = Some r"
proof (induction ps arbitrary: V r)
  case Nil
  then show ?case by simp
next
  case (Cons p ps)
  obtain ms V' where r: "r = (ms, V')" by (cases r)
  from Cons.prems [unfolded r analyzeProperties_Cons_Some] obtain m V1 ms' where
    p: "analyzeProperty f prog V p = Some (m, V1)" and
    rest: "analyzeProperties f prog V1 ps = Some (ms', V')" and ms: "ms = m # ms'"
    by blast
  from p have "analyzeProperty (Suc f) prog V p = Some (m, V1)"
    unfolding analyzeProperty_Some by (blast intro: ty)
  moreover from Cons.IH [OF rest] have "analyzeProperties (Suc f) prog V1 ps = Some (ms', V')" .
  ultimately show ?case
    unfolding r analyzeProperties_Cons_Some using ms by blast
qed

lemma analyzeBase_fuel_step:
  assumes ps: "\<And>V ps r. analyzeProperties f prog V ps = Some r \<Longrightarrow> analyzeProperties (Suc f) prog V ps = Some r"
  shows "analyzeBase f prog t b e V = Some r \<Longrightarrow> analyzeBase (Suc f) prog t b e V = Some r"
  unfolding analyzeBase_def
  by (auto split: option.splits if_splits dest: ps simp del: analyze_equations)

lemma analyzeType_fuel_step:
  "analyzeType f prog V t d = Some r \<Longrightarrow> analyzeType (Suc f) prog V t d = Some r"
proof (induction f arbitrary: V t d r)
  case 0
  then show ?case by simp
next
  case (Suc f)
  have props: "\<And>V ps r. analyzeProperties f prog V ps = Some r \<Longrightarrow> analyzeProperties (Suc f) prog V ps = Some r"
    by (rule analyzeProperties_fuel_step) (rule Suc.IH)
  have base: "\<And>t b e V r. analyzeBase f prog t b e V = Some r \<Longrightarrow> analyzeBase (Suc f) prog t b e V = Some r"
    by (rule analyzeBase_fuel_step) (rule props)
  note lo = analyzeType_Suc [of f prog V t d]
  note hi = analyzeType_Suc [of "Suc f" prog V t d]
  show ?case
  proof (cases "d > maxDepth \<or> getText t \<in> V")
    case True
    with Suc.prems show ?thesis unfolding lo hi by (auto split: if_splits)
  next
    case False
    show ?thesis
    proof (cases "getArrayElementType t")
      case None
      with False Suc.prems have "analyzeBase f prog t t None V = Some r"
        unfolding lo by simp
      then have "analyzeBase (Suc f) prog t t None V = Some r" by (rule base)
      with False None show ?thesis unfolding hi by simp
    next
      case (Some e)
      with False Suc.prems obtain m1 V1 where
        e: "analyzeType f prog V e (d + 1) = Some (m1, V1)" and
        b: "analyzeBase f prog t e (Some m1) V1 = Some r"
        unfolding lo by (auto split: option.splits)
      from e have "analyzeType (Suc f) prog V e (d + 1) = Some (m1, V1)" by (rule Suc.IH)
      moreover from b have "analyzeBase (Suc f) prog t e (Some m1) V1 = Some r" by (rule base)
      ultimately show ?thesis using False Some unfolding hi by simp
    qed
  qed
qed

lemma analyzeProperties_fuel_Suc:
  "analyzeProperties f prog V ps = Some r \<Longrightarrow> analyzeProperties (Suc f) prog V ps = Some r"
  by (rule analyzeProperties_fuel_step) (rule analyzeType_fuel_step)

lemma analyzeBase_fuel_Suc:
  "analyzeBase f prog t b e V = Some r \<Longrightarrow> analyzeBase (Suc f) prog t b e V = Some r"
  by (rule analyzeBase_fuel_step) (rule analyzeProperties_fuel_Suc)

lemma analyzeType_fuel_mono:
  "analyzeType f prog V t d = Some r \<Longrightarrow> f \<le> f' \<Longrightarrow> analyzeType f' prog V t d = Some r"
  by (induction f') (auto simp: le_Suc_eq dest: analyzeType_fuel_step simp del: analyze_equations)

lemma analyzeProperties_fuel_mono:
  "analyzeProperties f prog V ps = Some r \<Longrightarrow> f \<le> f' \<Longrightarrow> analyzeProperties f' prog V ps = Some r"
  by (induction f') (auto simp: le_Suc_eq dest: analyzeProperties_fuel_Suc simp del: analyze_equations)

lemma analyzeBase_fuel_mono:
  "analyzeBase f prog t b e V = Some r \<Longrightarrow> f \<le> f' \<Longrightarrow> analyzeBase f' prog t b e V = Some r"
  by (induction f') (auto simp: le_Suc_eq dest: analyzeBase_fuel_Suc simp del: analyze_equations)

lemma analyzeType_fuel_unique:
  assumes "analyzeType f1 prog V t d = Some r1" and "analyzeType f2 prog V t d = Some r2"
  shows "r1 = r2"
proof -
  from assms(1) have "analyzeType (max f1 f2) prog V t d = Some r1"
    by (rule analyzeType_fuel_mono) simp
  moreover from assms(2) have "analyzeType (max f1 f2) prog V t d = Some r2"
    by (rule analyzeType_fuel_mono) simp
  ultimately show ?thesis by simp
qed

subsection \<open>The visited set only grows, inside a finite set of texts\<close>

lemma finite_typeTexts: "finite (typeTexts t)"
  by (induction t) auto

lemma finite_programTexts: "finite (programTexts prog)"
  unfolding programTexts_def declaredProperties_def
  by (auto intro!: finite_UN_I finite_typeTexts)

lemma getText_in_typeTexts: "getText t \<in> typeTexts t"
  by (cases t) auto

lemma elementType_texts: "getArrayElementType t = Some e \<Longrightarrow> typeTexts e \<subseteq> typeTexts t"
  by (cases t) auto

lemma classDeclaration_properties:
  assumes "classDeclarationOf prog b = Some cd"
  shows "set (getProperties cd) \<subseteq> declaredProperties prog"
proof -
  from assms obtain n s ds where "map_of prog s = Some (cd # ds)"
    by (cases "(prog, b)" rule: classDeclarationOf.cases)
       (auto split: option.splits list.splits if_splits)
  then have "(s, cd # ds) \<in> set prog" by (rule map_of_SomeD)
  then show ?thesis unfolding declaredProperties_def by force
qed

lemma property_texts: "p \<in> declaredProperties prog \<Longrightarrow> typeTexts (propType p) \<subseteq> programTexts prog"
  unfolding programTexts_def by blast

lemma analyzeProperties_visited_step:
  assumes ty: "\<And>V t d m V'. analyzeType f prog V t d = Some (m, V') \<Longrightarrow> V \<subseteq> V'"
  shows "analyzeProperties f prog V ps = Some (ms, V') \<Longrightarrow> V \<subseteq> V'"
proof (induction ps arbitrary: V ms)
  case Nil
  then show ?case by simp
next
  case (Cons p ps)
  from Cons.prems [unfolded analyzeProperties_Cons_Some analyzeProperty_Some] obtain ty0 V1 ms' where
    p: "analyzeType f prog V (propType p) 0 = Some (ty0, V1)" and
    rest: "analyzeProperties f prog V1 ps = Some (ms', V')"
    by blast
  from ty [OF p] Cons.IH [OF rest] show ?case by blast
qed

lemma analyzeBase_visited_step:
  assumes ps: "\<And>V ps ms V'. analyzeProperties f prog V ps = Some (ms, V') \<Longrightarrow> V \<subseteq> V'"
  shows "analyzeBase f prog t b e V = Some (m, V') \<Longrightarrow> V \<subseteq> V'"
  unfolding analyzeBase_def
  by (auto split: option.splits if_splits dest!: ps simp del: analyze_equations)

lemma analyzeType_visited_mono:
  "analyzeType f prog V t d = Some (m, V') \<Longrightarrow> V \<subseteq> V'"
proof (induction f arbitrary: V t d m V')
  case 0
  then show ?case by simp
next
  case (Suc f)
  have props: "\<And>V ps ms V'. analyzeProperties f prog V ps = Some (ms, V') \<Longrightarrow> V \<subseteq> V'"
    by (rule analyzeProperties_visited_step) (rule Suc.IH)
  have base: "\<And>t b e V m V'. analyzeBase f prog t b e V = Some (m, V') \<Longrightarrow> V \<subseteq> V'"
    by (rule analyzeBase_visited_step) (rule props)
  from Suc.prems show ?case
    unfolding analyzeType_Suc
    by (auto split: option.splits if_splits dest!: base Suc.IH simp del: analyze_equations)
qed

lemma analyzeProperties_visited_mono:
  "analyzeProperties f prog V ps = Some (ms, V') \<Longrightarrow> V \<subseteq> V'"
  by (rule analyzeProperties_visited_step) (rule analyzeType_visited_mono)

lemma analyzeBase_visited_mono:
  "analyzeBase f prog t b e V = Some (m, V') \<Longrightarrow> V \<subseteq> V'"
  by (rule analyzeBase_visited_step) (rule analyzeProperties_visited_mono)

subsection \<open>Termination\<close>

text \<open>
  A class is expanded only when its text is new in \<open>visitedTypes\<close>, and its properties are
  analysed with that text added; the texts that can be added are those of the program and of
  the type at hand. So the number of texts not yet visited bounds the nesting of class
  expansions, and the element types of an array are structurally smaller.
\<close>

lemma analyzeType_terminates_aux:
  "card ((programTexts prog \<union> typeTexts t) - V) < k \<Longrightarrow> \<exists>f r. analyzeType f prog V t d = Some r"
proof (induction k arbitrary: V t d)
  case 0
  then show ?case by simp
next
  case (Suc k)
  let ?U = "programTexts prog"
  have fin: "finite ?U" by (rule finite_programTexts)
  have props_ok: "\<exists>f r. analyzeProperties f prog W ps = Some r"
    if "set ps \<subseteq> declaredProperties prog" and "card (?U - W) < k" for W ps
    using that
  proof (induction ps arbitrary: W)
    case Nil
    then show ?case by simp
  next
    case (Cons p ps)
    from Cons.prems have sub: "typeTexts (propType p) \<subseteq> ?U"
      by (auto dest: property_texts)
    then have "(?U \<union> typeTexts (propType p)) - W = ?U - W" by blast
    with Cons.prems have "card ((?U \<union> typeTexts (propType p)) - W) < k" by simp
    from Suc.IH [OF this, of 0] obtain f1 m1 W1 where
      p: "analyzeType f1 prog W (propType p) 0 = Some (m1, W1)" by auto
    from analyzeType_visited_mono [OF p] have "?U - W1 \<subseteq> ?U - W" by blast
    with fin have "card (?U - W1) \<le> card (?U - W)" by (intro card_mono) auto
    with Cons.prems have "card (?U - W1) < k" by simp
    with Cons.IH [of W1] Cons.prems obtain f2 ms W2 where
      rest: "analyzeProperties f2 prog W1 ps = Some (ms, W2)" by auto
    let ?f = "max f1 f2"
    from p have "analyzeType ?f prog W (propType p) 0 = Some (m1, W1)"
      by (rule analyzeType_fuel_mono) simp
    moreover from rest have "analyzeProperties ?f prog W1 ps = Some (ms, W2)"
      by (rule analyzeProperties_fuel_mono) simp
    ultimately have "\<exists>m. analyzeProperties ?f prog W (p # ps) = Some (m # ms, W2)"
      unfolding analyzeProperties_Cons_Some analyzeProperty_Some by blast
    then show ?case by blast
  qed
  have base_ok: "\<exists>f r. analyzeBase f prog t b e V1 = Some r"
    if "card (?U - insert (getText t) V1) < k" for t b e V1
  proof (cases "shallowType (getText t) b (isArrayType t) e = None \<and> isObject b \<and> classDeclarationOf prog b \<noteq> None")
    case False
    then show ?thesis unfolding analyzeBase_def by (auto split: option.splits)
  next
    case True
    then obtain cd where cd: "classDeclarationOf prog b = Some cd" by auto
    from props_ok [OF classDeclaration_properties [OF cd] that] obtain f r where
      "analyzeProperties f prog (insert (getText t) V1) (getProperties cd) = Some r" by auto
    with True cd have "\<exists>r'. analyzeBase f prog t b e V1 = Some r'"
      unfolding analyzeBase_def by simp
    then show ?thesis by blast
  qed
  have shrink: "card (?U - insert (getText t) V1) < k"
    if "getText t \<notin> V" and "V \<subseteq> V1" and "card ((?U \<union> typeTexts t) - V) < Suc k" for t V V1
  proof -
    let ?A = "(?U \<union> typeTexts t) - V"
    have finA: "finite ?A" using fin finite_typeTexts by auto
    have mem: "getText t \<in> ?A" using that(1) getText_in_typeTexts by auto
    have "?U - insert (getText t) V1 \<subseteq> ?A - {getText t}" using that(2) by auto
    with finA have "card (?U - insert (getText t) V1) \<le> card (?A - {getText t})"
      by (intro card_mono) auto
    also from finA mem have "\<dots> < card ?A" by (intro card_Diff1_less)
    finally show ?thesis using that(3) by simp
  qed
  from Suc.prems show ?case
  proof (induction t arbitrary: V d)
    case (Type n kind)
    let ?t = "Type n kind"
    show ?case
    proof (cases "d > maxDepth \<or> getText ?t \<in> V")
      case True
      then have "\<exists>r. analyzeType (Suc 0) prog V ?t d = Some r"
        unfolding analyzeType_Suc by auto
      then show ?thesis by blast
    next
      case False
      with shrink [of ?t V V] Type.prems have "card (?U - insert (getText ?t) V) < k" by simp
      from base_ok [OF this] obtain f r where "analyzeBase f prog ?t ?t None V = Some r" by blast
      with False have "analyzeType (Suc f) prog V ?t d = Some r"
        unfolding analyzeType_Suc by simp
      then show ?thesis by blast
    qed
  next
    case (ArrayType n e)
    let ?t = "ArrayType n e"
    show ?case
    proof (cases "d > maxDepth \<or> getText ?t \<in> V")
      case True
      then have "\<exists>r. analyzeType (Suc 0) prog V ?t d = Some r"
        unfolding analyzeType_Suc by auto
      then show ?thesis by blast
    next
      case False
      have "(?U \<union> typeTexts e) - V \<subseteq> (?U \<union> typeTexts ?t) - V" by auto
      moreover have "finite ((?U \<union> typeTexts ?t) - V)" using fin finite_typeTexts by auto
      ultimately have "card ((?U \<union> typeTexts e) - V) \<le> card ((?U \<union> typeTexts ?t) - V)"
        by (rule card_mono [rotated])
      with ArrayType.prems have "card ((?U \<union> typeTexts e) - V) < Suc k" by simp
      from ArrayType.IH [OF this, of "d + 1"] obtain f1 m1 V1 where
        e: "analyzeType f1 prog V e (d + 1) = Some (m1, V1)" by auto
      from analyzeType_visited_mono [OF e] have "V \<subseteq> V1" .
      with shrink [of ?t V V1] False ArrayType.prems
      have "card (?U - insert (getText ?t) V1) < k" by simp
      from base_ok [OF this] obtain f2 r where
        b: "analyzeBase f2 prog ?t e (Some m1) V1 = Some r" by blast
      let ?f = "max f1 f2"
      from e have "analyzeType ?f prog V e (d + 1) = Some (m1, V1)"
        by (rule analyzeType_fuel_mono) simp
      moreover from b have "analyzeBase ?f prog ?t e (Some m1) V1 = Some r"
        by (rule analyzeBase_fuel_mono) simp
      ultimately have "analyzeType (Suc ?f) prog V ?t d = Some r"
        using False unfolding analyzeType_Suc by simp
      then show ?thesis by blast
    qed
  qed
qed

lemma analyzeType_terminates: "\<exists>f r. analyzeType f prog V t d = Some r"
  by (rule analyzeType_terminates_aux [of prog t V "Suc (card ((programTexts prog \<union> typeTexts t) - V))"]) simp

subsection \<open>A property of the type of its own class\<close>









section \<open>Type resolver: cycles\<close>



section \<open>Type resolver: the depth bound\<close>

text \<open>
  Claim C2, at a chain of seven classes. \<open>analyzeProperty\<close> restarts every property type at
  depth 0, so the depth grows along element types only: the seventh class of the chain, six
  properties below the root, is expanded in full, while the element type six levels below a
  seven-fold array is the \<open>unknown\<close> descriptor.
\<close>

theorem property_chain_not_cut:
  "map_option (\<lambda>r. typeAt (fst r) (replicate 6 ''child''))
     (analyzeType 8 chainProgram {} (classRef ''Level0'') 0) =
     Some (Some (TypeMetadata ''Level6'' False False False False None
       (Some [PropertyMetadata ''value''
                (TypeMetadata ''string'' True False False False None None None None None)
                True None]) None None None)) \<and>
   map_option (\<lambda>r. elementAt (fst r) 6) (analyzeType 8 [] {} (nestedArray 7) 0) =
     Some (Some unknownType)"
  by code_simp

section \<open>Type resolver: the visited set between calls\<close>

lemma analyzeDto_resets:
  "analyzeDto f prog V classDeclaration = analyzeDto f prog {} classDeclaration"
  unfolding analyzeDto_def by (rule refl)

text \<open>
  Claim C3, at two calls of \<open>analyzeType\<close> on one analyzer. Resolving \<open>Order\<close> leaves
  \<open>Order\<close> and \<open>Customer\<close> in \<open>visitedTypes\<close>; resolving \<open>Customer\<close> next gives the bare
  reference, while on a fresh analyzer it gives the class with its property.
\<close>

theorem visited_types_leak:
  "map_option snd (analyzeType 3 orderProgram {} (classRef ''Order'') 0) =
     Some {''Order'', ''Customer''} \<and>
   map_option fst (analyzeType 3 orderProgram {''Order'', ''Customer''} (classRef ''Customer'') 0) =
     Some (referenceTo ''Customer'') \<and>
   map_option fst (analyzeType 3 orderProgram {} (classRef ''Customer'') 0) =
     Some (TypeMetadata ''Customer'' False False False False None
       (Some [PropertyMetadata ''name''
                (TypeMetadata ''string'' True False False False None None None None None)
                True None]) None None None)"
  by code_simp

section \<open>Specification synthesizer: versions\<close>

lemma addOperation_keys:
  "map fst (addOperation table k operation) =
     (if k \<in> set (map fst table) then map fst table else map fst table @ [k])"
  by (induction table k operation rule: addOperation.induct) auto

lemma addOperation_distinct:
  "distinct (map fst table) \<Longrightarrow> distinct (map fst (addOperation table k operation))"
  unfolding addOperation_keys by simp

lemma addOperation_key_set:
  "fst ` set (addOperation table k operation) = insert k (fst ` set table)"
  by (induction table k operation rule: addOperation.induct) auto

lemma addRoutes_keys:
  "fst ` set (addRoutes options c rs table) = fst ` set table \<union> pathKey options c ` set rs"
  by (induction rs arbitrary: table) (simp_all add: addOperation_key_set)

lemma addRoutes_distinct:
  "distinct (map fst table) \<Longrightarrow> distinct (map fst (addRoutes options c rs table))"
  by (induction rs arbitrary: table) (simp_all add: addOperation_distinct)

lemma generatePaths_keys:
  "fst ` set (generatePaths options cs table) =
     fst ` set table \<union> (\<Union>c \<in> set cs. pathKey options c ` set (routes c))"
  by (induction cs arbitrary: table) (simp_all add: addRoutes_keys Un_assoc)

lemma generatePaths_distinct:
  "distinct (map fst table) \<Longrightarrow> distinct (map fst (generatePaths options cs table))"
  by (induction cs arbitrary: table) (simp_all add: addRoutes_distinct)

lemma detectedVersions_set:
  "set (detectedVersions cs seen) =
     set seen \<union> {ver. \<exists>c \<in> set cs. controllerVersion c = Some ver}"
  by (induction cs arbitrary: seen) (auto split: option.splits)

lemma detectedVersions_distinct:
  "distinct seen \<Longrightarrow> distinct (detectedVersions cs seen)"
  by (induction cs arbitrary: seen) (auto split: option.splits)

lemma versioned_keys:
  "combinePaths [''/api/v1'', ''/admin/profile''] = ''api/v1/admin/profile''"
  "combinePaths [''/api/v1'', ''admin/profile''] = ''api/v1/admin/profile''"
  "combinePaths [''/api/v2'', ''/admin/profile''] = ''api/v2/admin/profile''"
  "combinePaths [''/api/v2'', ''admin/profile''] = ''api/v2/admin/profile''"
  by code_simp+

lemma upper_versions: "toUpperCase ''v1'' = ''V1''" "toUpperCase ''v2'' = ''V2''"
  by code_simp+

lemma versioned_pathKey:
  assumes "versioning options = Present v" "enabled v" "prefix v = Some ''/api''"
    and "fullPath r \<in> {''/admin/profile'', ''admin/profile''}"
  shows "controllerVersion c = Some ''v1'' \<Longrightarrow> pathKey options c r = ''api/v1/admin/profile''"
    and "controllerVersion c = Some ''v2'' \<Longrightarrow> pathKey options c r = ''api/v2/admin/profile''"
  using assms
  unfolding pathKey_def controllerPrefix_def activeVersioning_def versionPathPrefix_def
    versioningPrefix_def
  by (auto simp: versioned_keys)

lemma versioned_servers:
  assumes "versioning options = Present v" "enabled v" "prefix v = Some ''/api''"
  shows "docServers (generate services options) =
           map (versionServer v) (detectedVersions services [])"
    and "versionServer v ''v1'' = \<lparr> url = ''/api/v1'', serverDescription = Some ''API V1'' \<rparr>"
    and "versionServer v ''v2'' = \<lparr> url = ''/api/v2'', serverDescription = Some ''API V2'' \<rparr>"
  using assms
  unfolding generate_def generateServers_def activeVersioning_def versionServer_def
    versionPathPrefix_def versioningPrefix_def
  by (simp_all add: upper_versions)

lemma test_services:
  "controllerVersion ` set [adminV1, adminV2, userV2] = {Some ''v1'', Some ''v2''}"
  "controllerVersion adminV1 = Some ''v1''" "controllerVersion adminV2 = Some ''v2''"
  "routes adminV1 = [profileRoute]" "routes adminV2 = [profileRoute]"
  "fullPath profileRoute = ''/admin/profile''"
  by (auto simp: adminV1_def adminV2_def userV2_def profileRoute_def)

lemma versionedOptions_versioning:
  "versioning versionedOptions =
     Present \<lparr> enabled = True, strategy = None, prefix = Some ''/api'', fallback = None \<rparr>"
  unfolding versionedOptions_def by simp

text \<open>
  Claim C4. Let versioning be enabled under the prefix \<open>/api\<close>, whatever the other options
  hold, and let the services, however many, be resolved to the versions v1 and v2, both
  present, with a route at \<open>admin/profile\<close> in a service of each version. Then the document
  has the two distinct path keys \<open>api/v1/admin/profile\<close> and \<open>api/v2/admin/profile\<close>, no
  path key twice, and exactly two server entries, one per version: \<open>/api/v1\<close> labelled
  \<open>API V1\<close> and \<open>/api/v2\<close> labelled \<open>API V2\<close>. With exactly the two services and these two
  routes, these are all the path keys and the servers come in this order.
\<close>

theorem versioned_paths_and_servers:
  assumes opts: "versioning options = Present v" "enabled v" "prefix v = Some ''/api''"
    and versions: "controllerVersion ` set services = {Some ''v1'', Some ''v2''}"
    and c1: "c1 \<in> set services" "controllerVersion c1 = Some ''v1''" "r1 \<in> set (routes c1)"
      "fullPath r1 \<in> {''/admin/profile'', ''admin/profile''}"
    and c2: "c2 \<in> set services" "controllerVersion c2 = Some ''v2''" "r2 \<in> set (routes c2)"
      "fullPath r2 \<in> {''/admin/profile'', ''admin/profile''}"
  shows "''api/v1/admin/profile'' \<in> fst ` set (docPaths (generate services options)) \<and>
         ''api/v2/admin/profile'' \<in> fst ` set (docPaths (generate services options)) \<and>
         ''api/v1/admin/profile'' \<noteq> ''api/v2/admin/profile'' \<and>
         distinct (map fst (docPaths (generate services options))) \<and>
         length (docServers (generate services options)) = 2 \<and>
         set (docServers (generate services options)) =
           {\<lparr> url = ''/api/v1'', serverDescription = Some ''API V1'' \<rparr>,
            \<lparr> url = ''/api/v2'', serverDescription = Some ''API V2'' \<rparr>} \<and>
         (services = [c1, c2] \<and> routes c1 = [r1] \<and> routes c2 = [r2] \<longrightarrow>
            map fst (docPaths (generate services options)) =
              [''api/v1/admin/profile'', ''api/v2/admin/profile''] \<and>
            docServers (generate services options) =
              [\<lparr> url = ''/api/v1'', serverDescription = Some ''API V1'' \<rparr>,
               \<lparr> url = ''/api/v2'', serverDescription = Some ''API V2'' \<rparr>])"
proof -
  let ?doc = "generate services options"
  let ?keys = "map fst (docPaths ?doc)"
  note k1 = versioned_pathKey(1) [OF opts c1(4) c1(2)]
  note k2 = versioned_pathKey(2) [OF opts c2(4) c2(2)]
  have keys: "fst ` set (docPaths ?doc) = (\<Union>c \<in> set services. pathKey options c ` set (routes c))"
    unfolding generate_def by (simp add: generatePaths_keys)
  have m1: "''api/v1/admin/profile'' \<in> fst ` set (docPaths ?doc)"
    unfolding keys using c1(1,3) k1 by force
  have m2: "''api/v2/admin/profile'' \<in> fst ` set (docPaths ?doc)"
    unfolding keys using c2(1,3) k2 by force
  have ne: "''api/v1/admin/profile'' \<noteq> ''api/v2/admin/profile''" by simp
  have dk: "distinct ?keys"
    unfolding generate_def by (simp add: generatePaths_distinct)
  let ?vs = "detectedVersions services []"
  have "{ver. \<exists>c \<in> set services. controllerVersion c = Some ver} = {''v1'', ''v2''}"
  proof -
    have "{ver. \<exists>c \<in> set services. controllerVersion c = Some ver} =
          {ver. Some ver \<in> controllerVersion ` set services}"
      by force
    also have "\<dots> = {''v1'', ''v2''}" unfolding versions by auto
    finally show ?thesis .
  qed
  then have vset: "set ?vs = {''v1'', ''v2''}" by (simp add: detectedVersions_set)
  have vdist: "distinct ?vs" by (simp add: detectedVersions_distinct)
  have "length ?vs = card (set ?vs)" using vdist by (simp add: distinct_card)
  also have "\<dots> = 2" unfolding vset by simp
  finally have vlen: "length ?vs = 2" .
  note srv = versioned_servers [OF opts]
  have sl: "length (docServers ?doc) = 2" unfolding srv(1) using vlen by simp
  have ss: "set (docServers ?doc) =
      {\<lparr> url = ''/api/v1'', serverDescription = Some ''API V1'' \<rparr>,
       \<lparr> url = ''/api/v2'', serverDescription = Some ''API V2'' \<rparr>}"
    unfolding srv(1) set_map vset by (simp add: srv(2,3))
  have two: "map fst (docPaths ?doc) = [''api/v1/admin/profile'', ''api/v2/admin/profile''] \<and>
      docServers ?doc =
        [\<lparr> url = ''/api/v1'', serverDescription = Some ''API V1'' \<rparr>,
         \<lparr> url = ''/api/v2'', serverDescription = Some ''API V2'' \<rparr>]"
    if "services = [c1, c2]" "routes c1 = [r1]" "routes c2 = [r2]"
  proof
    show "map fst (docPaths ?doc) = [''api/v1/admin/profile'', ''api/v2/admin/profile'']"
      unfolding generate_def using that k1 k2 by (simp add: addOperation_keys)
    show "docServers ?doc =
        [\<lparr> url = ''/api/v1'', serverDescription = Some ''API V1'' \<rparr>,
         \<lparr> url = ''/api/v2'', serverDescription = Some ''API V2'' \<rparr>]"
      unfolding srv(1) using that c1(2) c2(2) by (simp add: srv(2,3))
  qed
  from m1 m2 ne dk sl ss two show ?thesis by blast
qed

theorem versioned_paths_and_servers_witness:
  "versioning versionedOptions =
     Present \<lparr> enabled = True, strategy = None, prefix = Some ''/api'', fallback = None \<rparr> \<and>
   controllerVersion ` set [adminV1, adminV2, userV2] = {Some ''v1'', Some ''v2''} \<and>
   controllerVersion adminV1 = Some ''v1'' \<and> controllerVersion adminV2 = Some ''v2'' \<and>
   profileRoute \<in> set (routes adminV1) \<and> profileRoute \<in> set (routes adminV2) \<and>
   fullPath profileRoute = ''/admin/profile'' \<and>
   ''api/v1/admin/profile'' \<in>
     fst ` set (docPaths (generate [adminV1, adminV2, userV2] versionedOptions)) \<and>
   ''api/v2/admin/profile'' \<in>
     fst ` set (docPaths (generate [adminV1, adminV2, userV2] versionedOptions)) \<and>
   length (docServers (generate [adminV1, adminV2, userV2] versionedOptions)) = 2 \<and>
   map fst (docPaths (generate [adminV1, adminV2] versionedOptions)) =
     [''api/v1/admin/profile'', ''api/v2/admin/profile''] \<and>
   docServers (generate [adminV1, adminV2] versionedOptions) =
     [\<lparr> url = ''/api/v1'', serverDescription = Some ''API V1'' \<rparr>,
      \<lparr> url = ''/api/v2'', serverDescription = Some ''API V2'' \<rparr>]"
proof -
  let ?v = "\<lparr> enabled = True, strategy = None, prefix = Some ''/api'', fallback = None \<rparr>"
  have e: "enabled ?v" and p: "prefix ?v = Some ''/api''" by simp_all
  have fp: "fullPath profileRoute \<in> {''/admin/profile'', ''admin/profile''}"
    by (simp add: test_services)
  have r1: "profileRoute \<in> set (routes adminV1)" and r2: "profileRoute \<in> set (routes adminV2)"
    by (simp_all add: test_services)
  have two: "controllerVersion ` set [adminV1, adminV2] = {Some ''v1'', Some ''v2''}"
    by (simp add: test_services)
  have in3: "adminV1 \<in> set [adminV1, adminV2, userV2]" "adminV2 \<in> set [adminV1, adminV2, userV2]"
    and in2: "adminV1 \<in> set [adminV1, adminV2]" "adminV2 \<in> set [adminV1, adminV2]"
    by simp_all
  note three =
    versioned_paths_and_servers [OF versionedOptions_versioning e p test_services(1)
      in3(1) test_services(2) r1 fp in3(2) test_services(3) r2 fp]
  note pair =
    versioned_paths_and_servers [OF versionedOptions_versioning e p two
      in2(1) test_services(2) r1 fp in2(2) test_services(3) r2 fp]
  from three pair versionedOptions_versioning test_services r1 r2 show ?thesis
    by simp
qed

section \<open>Route scanner: full paths\<close>









section \<open>Configuration errors\<close>

lemma trim_empty_iff: "trim s = [] \<longleftrightarrow> (\<forall>c \<in> set s. isWhiteSpace c)"
proof -
  have "(\<forall>c \<in> set (dropWhile isWhiteSpace s). isWhiteSpace c) \<longleftrightarrow> (\<forall>c \<in> set s. isWhiteSpace c)"
    by (induction s) auto
  then show ?thesis
    unfolding trim_def by (simp add: dropWhile_eq_Nil_conv)
qed

lemma missingOrBlank_iff:
  "missingOrBlank t \<longleftrightarrow> (\<forall>s. t = Some s \<longrightarrow> (\<forall>c \<in> set s. isWhiteSpace c))"
  unfolding missingOrBlank_def by (cases t) (auto simp: trim_empty_iff)

lemma not_missingOrBlank_iff:
  "\<not> missingOrBlank t \<longleftrightarrow> (\<exists>s. t = Some s \<and> (\<exists>c \<in> set s. \<not> isWhiteSpace c))"
  unfolding missingOrBlank_iff by blast

lemma ConfigService_error_iff:
  "(\<exists>e. ConfigService options = Inl e) \<longleftrightarrow>
     missingOrBlank (title options) \<or> missingOrBlank (version options)"
  unfolding ConfigService_def validateRequiredFields_def by simp

lemma ConfigService_ok:
  "\<not> missingOrBlank (title options) \<Longrightarrow> \<not> missingOrBlank (version options) \<Longrightarrow>
     ConfigService options = Inr (mergeWithDefaults options)"
  unfolding ConfigService_def validateRequiredFields_def by simp

text \<open>The key of the options decides alone: \<open>||\<close> and \<open>??\<close> change nothing that the spread
  does not overwrite.\<close>

lemma spreadOver_orDefault:
  "spreadOver (orDefault f d) f =
     (case f of Absent \<Rightarrow> Some d | Undefined \<Rightarrow> None | Present s \<Rightarrow> Some s)"
  by (cases f) (simp_all add: spreadOver_def orDefault_def)

lemma spreadOver_nullish:
  "spreadOver (nullish f d) f =
     (case f of Absent \<Rightarrow> Some d | Undefined \<Rightarrow> None | Present s \<Rightarrow> Some s)"
  by (cases f) (simp_all add: spreadOver_def nullish_def)

lemma mergeWithDefaults_keys:
  "mergeWithDefaults options =
     \<lparr> cfgTitle = title options,
       cfgVersion = version options,
       cfgDescription = (case description options of Present x \<Rightarrow> Some x | _ \<Rightarrow> None),
       cfgSourcePath =
         (case sourcePath options of
            Absent \<Rightarrow> Some ''src'' | Undefined \<Rightarrow> None | Present x \<Rightarrow> Some x),
       cfgGlobalPrefix = (case globalPrefix options of Present x \<Rightarrow> Some x | _ \<Rightarrow> None),
       cfgDocsPath =
         (case docsPath options of
            Absent \<Rightarrow> Some ''/docs'' | Undefined \<Rightarrow> None | Present x \<Rightarrow> Some x),
       cfgSpecPath =
         (case specPath options of
            Absent \<Rightarrow> Some ''/docs-json'' | Undefined \<Rightarrow> None | Present x \<Rightarrow> Some x),
       cfgServers = (case servers options of Present x \<Rightarrow> Some x | _ \<Rightarrow> None),
       cfgTheme = (case theme options of Present x \<Rightarrow> Some x | _ \<Rightarrow> None),
       cfgCategoryMapping = (case categoryMapping options of Present x \<Rightarrow> Some x | _ \<Rightarrow> None),
       cfgScanOnStart =
         (case scanOnStart options of
            Absent \<Rightarrow> Some True | Undefined \<Rightarrow> None | Present x \<Rightarrow> Some x),
       cfgWatchMode =
         (case watchMode options of
            Absent \<Rightarrow> Some False | Undefined \<Rightarrow> None | Present x \<Rightarrow> Some x),
       cfgExclude = (case exclude options of Present x \<Rightarrow> Some x | _ \<Rightarrow> None),
       cfgIncludeSecurity =
         (case includeSecurity options of
            Absent \<Rightarrow> Some True | Undefined \<Rightarrow> None | Present x \<Rightarrow> Some x),
       cfgSecurityScheme = (case securityScheme options of Present x \<Rightarrow> Some x | _ \<Rightarrow> None),
       cfgVersioning = (case versioning options of Present x \<Rightarrow> Some x | _ \<Rightarrow> None) \<rparr>"
  unfolding mergeWithDefaults_def spreadOver_orDefault spreadOver_nullish spreadOnly_def
  by (rule refl)

lemma minimalOptions_fields:
  "title minimalOptions = Some ''Test API''"
  "version minimalOptions = Some ''1.0''"
  "sourcePath minimalOptions = Absent"
  "scanOnStart minimalOptions = Absent"
  unfolding minimalOptions_def by simp_all

lemma blankTitleOptions_fields:
  "title blankTitleOptions = Some ''   ''"
  unfolding blankTitleOptions_def by simp

lemma undefinedKeysOptions_fields:
  "title undefinedKeysOptions = Some ''Test API''"
  "version undefinedKeysOptions = Some ''1.0''"
  "sourcePath undefinedKeysOptions = Present []"
  "scanOnStart undefinedKeysOptions = Undefined"
  unfolding undefinedKeysOptions_def by (simp_all add: minimalOptions_fields)

lemma cfg_selectors:
  "cfgSourcePath (mergeWithDefaults options) =
     (case sourcePath options of
        Absent \<Rightarrow> Some ''src'' | Undefined \<Rightarrow> None | Present x \<Rightarrow> Some x)"
  "cfgScanOnStart (mergeWithDefaults options) =
     (case scanOnStart options of
        Absent \<Rightarrow> Some True | Undefined \<Rightarrow> None | Present x \<Rightarrow> Some x)"
  unfolding mergeWithDefaults_def spreadOver_orDefault spreadOver_nullish by simp_all

lemma undefinedKeysOptions_result:
  "\<exists>cfg. ConfigService undefinedKeysOptions = Inr cfg \<and>
         cfgSourcePath cfg = Some [] \<and> cfgScanOnStart cfg = None"
proof -
  have "\<not> missingOrBlank (title undefinedKeysOptions)"
    "\<not> missingOrBlank (version undefinedKeysOptions)"
    unfolding not_missingOrBlank_iff undefinedKeysOptions_fields
    by (simp_all add: isWhiteSpace_def)
  then have "ConfigService undefinedKeysOptions = Inr (mergeWithDefaults undefinedKeysOptions)"
    by (rule ConfigService_ok)
  moreover have "cfgSourcePath (mergeWithDefaults undefinedKeysOptions) = Some []"
    "cfgScanOnStart (mergeWithDefaults undefinedKeysOptions) = None"
    unfolding cfg_selectors undefinedKeysOptions_fields by simp_all
  ultimately show ?thesis by blast
qed

text \<open>
  Claim C6. The constructor of the configuration service throws exactly when the title or the
  version is missing or consists of white space only, and every other configuration is
  accepted, whatever its other keys hold. The result is the options over the defaults, key by
  key: a key the options leave out takes its default, and a key the options hold keeps what
  they hold. So the default is not filled in for a key that is present with the value
  \<open>undefined\<close> or the empty string: for
  \<open>{ title: 'Test API', version: '1.0', sourcePath: '', scanOnStart: undefined }\<close> the result
  has the source path \<open>''\<close> and no value for \<open>scanOnStart\<close>.
\<close>

theorem config_construction:
  "((\<exists>e. ConfigService options = Inl e) \<longleftrightarrow>
      (\<forall>s. title options = Some s \<longrightarrow> (\<forall>c \<in> set s. isWhiteSpace c)) \<or>
      (\<forall>s. version options = Some s \<longrightarrow> (\<forall>c \<in> set s. isWhiteSpace c))) \<and>
   ((\<exists>s. title options = Some s \<and> (\<exists>c \<in> set s. \<not> isWhiteSpace c)) \<and>
    (\<exists>s. version options = Some s \<and> (\<exists>c \<in> set s. \<not> isWhiteSpace c)) \<longrightarrow>
      ConfigService options = Inr
        \<lparr> cfgTitle = title options,
          cfgVersion = version options,
          cfgDescription = (case description options of Present x \<Rightarrow> Some x | _ \<Rightarrow> None),
          cfgSourcePath =
            (case sourcePath options of
               Absent \<Rightarrow> Some ''src'' | Undefined \<Rightarrow> None | Present x \<Rightarrow> Some x),
          cfgGlobalPrefix = (case globalPrefix options of Present x \<Rightarrow> Some x | _ \<Rightarrow> None),
          cfgDocsPath =
            (case docsPath options of
               Absent \<Rightarrow> Some ''/docs'' | Undefined \<Rightarrow> None | Present x \<Rightarrow> Some x),
          cfgSpecPath =
            (case specPath options of
               Absent \<Rightarrow> Some ''/docs-json'' | Undefined \<Rightarrow> None | Present x \<Rightarrow> Some x),
          cfgServers = (case servers options of Present x \<Rightarrow> Some x | _ \<Rightarrow> None),
          cfgTheme = (case theme options of Present x \<Rightarrow> Some x | _ \<Rightarrow> None),
          cfgCategoryMapping =
            (case categoryMapping options of Present x \<Rightarrow> Some x | _ \<Rightarrow> None),
          cfgScanOnStart =
            (case scanOnStart options of
               Absent \<Rightarrow> Some True | Undefined \<Rightarrow> None | Present x \<Rightarrow> Some x),
          cfgWatchMode =
            (case watchMode options of
               Absent \<Rightarrow> Some False | Undefined \<Rightarrow> None | Present x \<Rightarrow> Some x),
          cfgExclude = (case exclude options of Present x \<Rightarrow> Some x | _ \<Rightarrow> None),
          cfgIncludeSecurity =
            (case includeSecurity options of
               Absent \<Rightarrow> Some True | Undefined \<Rightarrow> None | Present x \<Rightarrow> Some x),
          cfgSecurityScheme =
            (case securityScheme options of Present x \<Rightarrow> Some x | _ \<Rightarrow> None),
          cfgVersioning = (case versioning options of Present x \<Rightarrow> Some x | _ \<Rightarrow> None) \<rparr>) \<and>
   (\<exists>cfg. ConfigService undefinedKeysOptions = Inr cfg \<and>
          cfgSourcePath cfg = Some [] \<and> cfgScanOnStart cfg = None)"
proof (intro conjI impI)
  show "(\<exists>e. ConfigService options = Inl e) \<longleftrightarrow>
      (\<forall>s. title options = Some s \<longrightarrow> (\<forall>c \<in> set s. isWhiteSpace c)) \<or>
      (\<forall>s. version options = Some s \<longrightarrow> (\<forall>c \<in> set s. isWhiteSpace c))"
    using ConfigService_error_iff [of options] unfolding missingOrBlank_iff .
next
  assume "(\<exists>s. title options = Some s \<and> (\<exists>c \<in> set s. \<not> isWhiteSpace c)) \<and>
          (\<exists>s. version options = Some s \<and> (\<exists>c \<in> set s. \<not> isWhiteSpace c))"
  then have "\<not> missingOrBlank (title options)" and "\<not> missingOrBlank (version options)"
    unfolding not_missingOrBlank_iff by blast+
  then have "ConfigService options = Inr (mergeWithDefaults options)"
    by (rule ConfigService_ok)
  then show "ConfigService options = Inr
        \<lparr> cfgTitle = title options,
          cfgVersion = version options,
          cfgDescription = (case description options of Present x \<Rightarrow> Some x | _ \<Rightarrow> None),
          cfgSourcePath =
            (case sourcePath options of
               Absent \<Rightarrow> Some ''src'' | Undefined \<Rightarrow> None | Present x \<Rightarrow> Some x),
          cfgGlobalPrefix = (case globalPrefix options of Present x \<Rightarrow> Some x | _ \<Rightarrow> None),
          cfgDocsPath =
            (case docsPath options of
               Absent \<Rightarrow> Some ''/docs'' | Undefined \<Rightarrow> None | Present x \<Rightarrow> Some x),
          cfgSpecPath =
            (case specPath options of
               Absent \<Rightarrow> Some ''/docs-json'' | Undefined \<Rightarrow> None | Present x \<Rightarrow> Some x),
          cfgServers = (case servers options of Present x \<Rightarrow> Some x | _ \<Rightarrow> None),
          cfgTheme = (case theme options of Present x \<Rightarrow> Some x | _ \<Rightarrow> None),
          cfgCategoryMapping =
            (case categoryMapping options of Present x \<Rightarrow> Some x | _ \<Rightarrow> None),
          cfgScanOnStart =
            (case scanOnStart options of
               Absent \<Rightarrow> Some True | Undefined \<Rightarrow> None | Present x \<Rightarrow> Some x),
          cfgWatchMode =
            (case watchMode options of
               Absent \<Rightarrow> Some False | Undefined \<Rightarrow> None | Present x \<Rightarrow> Some x),
          cfgExclude = (case exclude options of Present x \<Rightarrow> Some x | _ \<Rightarrow> None),
          cfgIncludeSecurity =
            (case includeSecurity options of
               Absent \<Rightarrow> Some True | Undefined \<Rightarrow> None | Present x \<Rightarrow> Some x),
          cfgSecurityScheme =
            (case securityScheme options of Present x \<Rightarrow> Some x | _ \<Rightarrow> None),
          cfgVersioning = (case versioning options of Present x \<Rightarrow> Some x | _ \<Rightarrow> None) \<rparr>"
    unfolding mergeWithDefaults_keys .
next
  show "\<exists>cfg. ConfigService undefinedKeysOptions = Inr cfg \<and>
          cfgSourcePath cfg = Some [] \<and> cfgScanOnStart cfg = None"
    by (rule undefinedKeysOptions_result)
qed

theorem config_construction_witness:
  "(\<exists>s. title minimalOptions = Some s \<and> (\<exists>c \<in> set s. \<not> isWhiteSpace c)) \<and>
   (\<exists>s. version minimalOptions = Some s \<and> (\<exists>c \<in> set s. \<not> isWhiteSpace c)) \<and>
   sourcePath minimalOptions = Absent \<and>
   (\<exists>cfg. ConfigService minimalOptions = Inr cfg \<and> cfgSourcePath cfg = Some ''src'') \<and>
   title blankTitleOptions = Some ''   '' \<and>
   (\<exists>e. ConfigService blankTitleOptions = Inl e)"
proof -
  have t: "\<exists>s. title minimalOptions = Some s \<and> (\<exists>c \<in> set s. \<not> isWhiteSpace c)"
    unfolding minimalOptions_fields by (simp add: isWhiteSpace_def)
  have v: "\<exists>s. version minimalOptions = Some s \<and> (\<exists>c \<in> set s. \<not> isWhiteSpace c)"
    unfolding minimalOptions_fields by (simp add: isWhiteSpace_def)
  have a: "sourcePath minimalOptions = Absent"
    by (rule minimalOptions_fields)
  have b: "\<forall>s. title blankTitleOptions = Some s \<longrightarrow> (\<forall>c \<in> set s. isWhiteSpace c)"
    unfolding blankTitleOptions_fields by (simp add: isWhiteSpace_def)
  from config_construction [of minimalOptions] t v
  have "ConfigService minimalOptions = Inr (mergeWithDefaults minimalOptions)"
    unfolding mergeWithDefaults_keys by blast
  moreover have "cfgSourcePath (mergeWithDefaults minimalOptions) = Some ''src''"
    unfolding cfg_selectors a by simp
  ultimately have c: "\<exists>cfg. ConfigService minimalOptions = Inr cfg \<and> cfgSourcePath cfg = Some ''src''"
    by blast
  from config_construction [of blankTitleOptions] b
  have d: "\<exists>e. ConfigService blankTitleOptions = Inl e"
    by blast
  from t v a c d blankTitleOptions_fields show ?thesis by blast
qed

section \<open>Constraint mapper\<close>

text \<open>
  Claim C7. For every annotation name that is not a label of the lookup table,
  \<open>mapValidatorDecorator\<close> returns the descriptor with that name and no constraints when the
  name starts with \<open>Is\<close> or \<open>Validate\<close>, and \<open>null\<close> otherwise. The function has no
  \<open>throw\<close>: its model is total, whatever the arguments and whatever \<open>parseInt\<close> returns.
\<close>

theorem unrecognized_validator:
  "getName d \<notin> set recognizedValidators \<Longrightarrow>
     mapValidatorDecorator parseInt d =
       (if startsWith (getName d) ''Is'' \<or> startsWith (getName d) ''Validate''
        then Some \<lparr> vname = getName d, vargs = None, vconstraints = [] \<rparr>
        else None)"
  unfolding mapValidatorDecorator_def recognizedValidators_def plainValidator_def Let_def
  by simp

theorem unrecognized_validator_witness:
  "getName unrecognizedIs \<notin> set recognizedValidators \<and>
   mapValidatorDecorator (\<lambda>s. None) unrecognizedIs =
     Some \<lparr> vname = ''IsPhoneNumber'', vargs = None, vconstraints = [] \<rparr> \<and>
   getName unrecognizedOther \<notin> set recognizedValidators \<and>
   mapValidatorDecorator (\<lambda>s. None) unrecognizedOther = None"
proof -
  have a: "getName unrecognizedIs \<notin> set recognizedValidators"
    by (simp add: unrecognizedIs_def recognizedValidators_def)
  have b: "getName unrecognizedOther \<notin> set recognizedValidators"
    by (simp add: unrecognizedOther_def recognizedValidators_def)
  from unrecognized_validator [OF a, of "\<lambda>s. None"] unrecognized_validator [OF b, of "\<lambda>s. None"] a b
  show ?thesis
    by (simp add: unrecognizedIs_def unrecognizedOther_def startsWith_def)
qed

section \<open>Example generator\<close>

text \<open>
  Claim C8 as stated fails: for the property \<open>email\<close> with the declared format \<open>uri\<close> the
  example is not the email sample.
\<close>

theorem email_uri_counterexample:
  "generateExample emailUriProperty \<noteq> JString ''user@example.com''"
  by code_simp

text \<open>
  Claim C8, amended. The declared format is looked at before the field name: the property
  \<open>email\<close> with the declared format \<open>uri\<close> yields the URI sample \<open>https://example.com\<close>, and
  the string property \<open>contactUrl\<close> without a format yields the URL sample of the field-name
  heuristic, \<open>https://example.com\<close>.
\<close>

theorem example_precedence:
  "generateExample emailUriProperty = JString ''https://example.com'' \<and>
   generateExample contactUrlProperty = JString ''https://example.com''"
  by code_simp

text \<open>
  Claim C9, at the property \<open>tags: string[]\<close>. The analyzer marks an array of strings as
  primitive, and \<open>generateFromType\<close> asks for primitives before arrays: the example is the
  string \<open>example\<close>, not an array. For \<open>items: Item[]\<close>, an array of a class, the example is
  the one-element array of the example of \<open>Item\<close>.
\<close>

theorem array_of_strings_example:
  "map_option (\<lambda>r. (isArray (pmType (fst r)), generateExample (fst r)))
     (analyzeProperty 2 [] {} tagsProperty) = Some (True, JString ''example'') \<and>
   map_option (\<lambda>r. (isArray (pmType (fst r)), generateExample (fst r)))
     (analyzeProperty 3 itemProgram {} itemsProperty) =
     Some (True, JArray [JObject [(''sku'', JString ''example'')]])"
  by code_simp

text \<open>The object built for the properties \<open>b\<close>, \<open>10\<close>, \<open>2\<close>, \<open>__proto__\<close> and \<open>b\<close> again, each
  of type string, in the order in which its keys are enumerated.\<close>

lemma generateProperties_enumeration_order:
  "map fst
     (generateProperties
        (map (\<lambda>k. PropertyMetadata k
                 (TypeMetadata ''string'' True False False False None None None None None)
                 True None)
           [''b'', ''10'', ''2'', ''__proto__'', ''b''])
        []) = [''2'', ''10'', ''b'']"
  by code_simp

section \<open>Required properties\<close>

lemma analyzeProperty_terminates: "\<exists>f r. analyzeProperty f prog V p = Some r"
proof -
  from analyzeType_terminates [of prog V "propType p" 0] obtain f m V' where
    "analyzeType f prog V (propType p) 0 = Some (m, V')" by auto
  then have "\<exists>m'. analyzeProperty f prog V p = Some (m', V')"
    unfolding analyzeProperty_Some by blast
  then show ?thesis by blast
qed

text \<open>
  Claim C10. \<open>analyzeProperty\<close> returns for every property, and the descriptor it returns
  is required exactly when the property has neither a question token nor an initializer: a
  property with an initializer and no question token is not required.
\<close>

theorem required_flag:
  "(\<exists>f r. analyzeProperty f prog V p = Some r) \<and>
   (\<forall>f m V'. analyzeProperty f prog V p = Some (m, V') \<longrightarrow>
      pmName m = propName p \<and>
      required m = (\<not> hasQuestionToken p \<and> \<not> hasInitializer p))"
  using analyzeProperty_terminates [of prog V p] unfolding analyzeProperty_Some by auto

theorem required_flag_witness:
  "\<exists>m V'. analyzeProperty 1 [] {} defaultedProperty = Some (m, V') \<and>
     \<not> hasQuestionToken defaultedProperty \<and> hasInitializer defaultedProperty \<and>
     pmName m = ''limit'' \<and> required m = False"
proof -
  have run: "analyzeProperty 1 [] {} defaultedProperty =
      Some (PropertyMetadata ''limit''
              (TypeMetadata ''number'' True False False False None None None None None)
              False None, {})"
    by code_simp
  have flags: "\<not> hasQuestionToken defaultedProperty" "hasInitializer defaultedProperty"
    "propName defaultedProperty = ''limit''"
    by (simp_all add: defaultedProperty_def)
  from required_flag [of "[]" "{}" defaultedProperty] run flags
  show ?thesis by auto
qed

end
